theory Spec2Isabelle
  imports Complex_Main
begin

section \<open>JavaScript numbers\<close>

text \<open>
  The evaluator computes on JavaScript numbers. A number of the model is either a finite
  real or \<open>NaN\<close>. Rounding of binary floating point and the infinities (reached only by
  overflow) are not part of the model. \<open>NaN\<close> is part of it: the date arithmetic yields
  it on an unparseable date string, it spreads through the arithmetic, and every
  comparison with it is false.
\<close>

datatype number = NaN | Num real

fun js_add :: "number \<Rightarrow> number \<Rightarrow> number" where
  "js_add (Num a) (Num b) = Num (a + b)"
| "js_add _ _ = NaN"

fun js_sub :: "number \<Rightarrow> number \<Rightarrow> number" where
  "js_sub (Num a) (Num b) = Num (a - b)"
| "js_sub _ _ = NaN"

fun js_mul :: "number \<Rightarrow> number \<Rightarrow> number" where
  "js_mul (Num a) (Num b) = Num (a * b)"
| "js_mul _ _ = NaN"

text \<open>
  Every division of the evaluator has a divisor that is a non-zero constant, is guarded by
  a test \<open>> 0\<close>, is \<open>dte\<close> (at least 1 or \<open>NaN\<close>), or has a \<open>NaN\<close> numerator
  (\<open>annualROI / minROI\<close>, see \<open>scoreROI\<close>). A zero divisor under a finite numerator
  would give an infinity or \<open>NaN\<close> in JavaScript; the model answers \<open>NaN\<close> there.
\<close>

fun js_div :: "number \<Rightarrow> number \<Rightarrow> number" where
  "js_div (Num a) (Num b) = (if b = 0 then NaN else Num (a / b))"
| "js_div _ _ = NaN"

fun js_lt :: "number \<Rightarrow> number \<Rightarrow> bool" where
  "js_lt (Num a) (Num b) = (a < b)"
| "js_lt _ _ = False"

fun js_le :: "number \<Rightarrow> number \<Rightarrow> bool" where
  "js_le (Num a) (Num b) = (a \<le> b)"
| "js_le _ _ = False"

fun js_gt :: "number \<Rightarrow> number \<Rightarrow> bool" where
  "js_gt (Num a) (Num b) = (a > b)"
| "js_gt _ _ = False"

fun js_ge :: "number \<Rightarrow> number \<Rightarrow> bool" where
  "js_ge (Num a) (Num b) = (a \<ge> b)"
| "js_ge _ _ = False"

fun Math_max :: "number \<Rightarrow> number \<Rightarrow> number" where
  "Math_max (Num a) (Num b) = Num (max a b)"
| "Math_max _ _ = NaN"

fun Math_min :: "number \<Rightarrow> number \<Rightarrow> number" where
  "Math_min (Num a) (Num b) = Num (min a b)"
| "Math_min _ _ = NaN"

fun Math_ceil :: "number \<Rightarrow> number" where
  "Math_ceil (Num a) = Num (of_int \<lceil>a\<rceil>)"
| "Math_ceil NaN = NaN"

text \<open>
  \<open>parseFloat(x.toFixed(d))\<close>: \<open>toFixed\<close> sets the sign aside, picks the integer \<open>n\<close>
  with \<open>n / 10^d\<close> nearest to the magnitude (the larger one on a tie) and prints
  \<open>n / 10^d\<close>; from \<open>10^21\<close> on it prints the number itself. \<open>NaN\<close> prints as
  \<open>NaN\<close> and parses back to \<open>NaN\<close>.
\<close>

definition roundMagnitude :: "nat \<Rightarrow> real \<Rightarrow> real" where
  "roundMagnitude d x = of_int \<lfloor>x * 10 ^ d + 1 / 2\<rfloor> / 10 ^ d"

definition toFixedReal :: "nat \<Rightarrow> real \<Rightarrow> real" where
  "toFixedReal d x =
     (if \<bar>x\<bar> \<ge> 10 ^ 21 then x
      else if x < 0 then - roundMagnitude d (- x)
      else roundMagnitude d x)"

fun toFixed :: "nat \<Rightarrow> number \<Rightarrow> number" where
  "toFixed d (Num x) = Num (toFixedReal d x)"
| "toFixed d NaN = NaN"

section \<open>Data model\<close>

datatype optionType = Put | Call

record tolerances =
  maxDTE :: "real option"
  minROI :: "real option"
  maxBeta :: "real option"
  maxDelta :: "real option"

record trade =
  symbol :: string
  tradeDate :: string
  expirationDate :: string
  optType :: optionType
  strike :: real
  bid :: real
  supportLevel :: "real option"
  beta :: real
  delta :: real

datatype Suggestion = Conservative | Neutral | Aggressive

text \<open>
  The notes of the breakdown are template strings. The model keeps which template was
  used and the numbers printed into it:
  \<^item> \<open>HardFailNote a b\<close>: "Hard fail: ROI a% < b%"
  \<^item> \<open>MeetsMinROI\<close>: "Meets or exceeds minimum ROI"
  \<^item> \<open>BelowMinROI a b\<close>: "Below min ROI (a% vs b%)"
  \<^item> \<open>WithinMaxDelta\<close>: "Within max delta"
  \<^item> \<open>ExceedsMaxDelta a b\<close>: "Exceeds max delta (a% > b%)"
  \<^item> \<open>WithinMaxDTE\<close>: "Within max DTE"
  \<^item> \<open>ExceedsMaxDTE a b\<close>: "Exceeds max DTE (ad > bd)"
  \<^item> \<open>WithinMaxBeta\<close>: "Within max beta"
  \<^item> \<open>ExceedsMaxBeta a b\<close>: "Exceeds max beta (a > b)"
  \<^item> \<open>HighCollateral\<close>, \<open>LowCollateral\<close>, \<open>ModerateCollateral\<close>:
    "High collateral", "Low collateral", "Moderate collateral"
  \<^item> \<open>SupportBelow5\<close>: "Support variance < 5%"
  \<^item> \<open>StrongSupport\<close>: "Strong support buffer (>=10%)"
  \<^item> \<open>ModerateSupport\<close>: "Moderate support buffer (5-10%)"
\<close>

datatype partNote =
    HardFailNote number number
  | MeetsMinROI
  | BelowMinROI number number
  | WithinMaxDelta
  | ExceedsMaxDelta number number
  | WithinMaxDTE
  | ExceedsMaxDTE number number
  | WithinMaxBeta
  | ExceedsMaxBeta number number
  | HighCollateral
  | LowCollateral
  | ModerateCollateral
  | SupportBelow5
  | StrongSupport
  | ModerateSupport

text \<open>The source's \<open>Part\<close>; its field \<open>max\<close> is \<open>max_pts\<close> here.\<close>

record part =
  key :: string
  label :: string
  max_pts :: real
  earned :: number
  noteOf :: partNote

text \<open>
  The object returned for one trade: the trade itself (the spread \<open>...trade\<close>) and the
  derived fields.
\<close>

record evaluated =
  input :: trade
  premium :: real
  breakeven :: real
  annualROI :: number
  dte :: number
  score :: number
  suggestion :: Suggestion
  collateralAtRisk :: real
  supportVariancePct :: "real option"
  hardFail :: bool
  breakdown :: "part list"
  totalPossible :: real
  pointsBeforePenalties :: number
  penaltiesApplied :: number
  pointsFinal :: number

section \<open>Derived metrics\<close>

text \<open>
  \<open>getTime\<close> stands for \<open>new Date(s).getTime()\<close> of the JavaScript runtime: the time
  value of the string in milliseconds, or \<open>NaN\<close> for an invalid date. It is a parameter
  of the model; \<open>isoTime\<close> below is its instance on date-only ISO strings.
\<close>

definition dteOf :: "(string \<Rightarrow> number) \<Rightarrow> trade \<Rightarrow> number" where
  "dteOf getTime t =
     Math_max (Num 1)
       (Math_ceil
          (js_div (js_sub (getTime (expirationDate t)) (getTime (tradeDate t)))
             (Num (1000 * 60 * 60 * 24))))"

definition premiumOf :: "trade \<Rightarrow> real" where
  "premiumOf t = bid t * 100"

definition breakevenOf :: "trade \<Rightarrow> real" where
  "breakevenOf t = (if optType t = Put then strike t - bid t else strike t + bid t)"

definition annualROIOf :: "(string \<Rightarrow> number) \<Rightarrow> trade \<Rightarrow> number" where
  "annualROIOf getTime t =
     js_mul (Num (if strike t > 0 then bid t / strike t else 0))
       (js_div (Num 365) (dteOf getTime t))"

definition collateralAtRiskOf :: "trade \<Rightarrow> real" where
  "collateralAtRiskOf t = strike t * 100"

definition supportVariancePctOf :: "trade \<Rightarrow> real option" where
  "supportVariancePctOf t =
     (case supportLevel t of
        Some sl \<Rightarrow>
          (if optType t = Put \<and> strike t > 0
           then Some (((sl - strike t) / strike t) * 100)
           else None)
      | None \<Rightarrow> None)"

text \<open>
  \<open>tolerances?.f\<close> with \<open>typeof ... === "number"\<close>: the field of a tolerances object
  that may itself be absent.
\<close>

definition tolField :: "(tolerances \<Rightarrow> real option) \<Rightarrow> tolerances option \<Rightarrow> real option" where
  "tolField f tol = (case tol of None \<Rightarrow> None | Some r \<Rightarrow> f r)"

definition hardFailThreshold :: "tolerances option \<Rightarrow> real" where
  "hardFailThreshold tol = (case tolField minROI tol of Some m \<Rightarrow> m | None \<Rightarrow> 0.30)"

definition hardFailOf :: "(string \<Rightarrow> number) \<Rightarrow> tolerances option \<Rightarrow> trade \<Rightarrow> bool" where
  "hardFailOf getTime tol t = js_lt (annualROIOf getTime t) (Num (hardFailThreshold tol))"

section \<open>Scoring\<close>

definition heavyPenalty :: "number \<Rightarrow> number \<Rightarrow> number" where
  "heavyPenalty val tol =
     (if js_le val tol then Num 1
      else
        let ratio = (if js_gt tol (Num 0) then js_div tol val else Num 0);
            scaled = Math_max (Num 0) (Math_min (Num 1) (js_mul ratio ratio))
        in scaled)"

definition maxPenaltyPool :: real where
  "maxPenaltyPool = 15"

definition addPenaltyFromExceedance :: "number \<Rightarrow> number" where
  "addPenaltyFromExceedance overRatio =
     (if js_le overRatio (Num 1) then Num 0
      else
        let sev = Math_max (Num 0) (js_sub (Num 1) (js_div (Num 1) overRatio))
        in sev)"

text \<open>The mutable locals of the scoring part, threaded through the criteria in order.\<close>

record scoring =
  scoreAcc :: number
  totalAcc :: real
  penaltyPool :: number
  parts :: "part list"

definition scoring0 :: scoring where
  "scoring0 = \<lparr>scoreAcc = Num 0, totalAcc = 0, penaltyPool = Num 0, parts = []\<rparr>"

definition scoreROI :: "number \<Rightarrow> tolerances option \<Rightarrow> scoring \<Rightarrow> scoring" where
  "scoreROI roi tol s =
     (case tolField minROI tol of
        None \<Rightarrow> s
      | Some m \<Rightarrow>
          let W = 35;
              s1 = s\<lparr>totalAcc := totalAcc s + W\<rparr>
          in if js_ge roi (Num m)
             then s1\<lparr>scoreAcc := js_add (scoreAcc s1) (Num W),
                     parts := parts s1 @
                       [\<lparr>key = ''roi'', label = ''Annual ROI'', max_pts = W, earned = Num W,
                         noteOf = MeetsMinROI\<rparr>]\<rparr>
             else
               let e = Math_max (Num 0) (js_mul (js_div roi (Num m)) (Num W))
               in s1\<lparr>scoreAcc := js_add (scoreAcc s1) e,
                       parts := parts s1 @
                         [\<lparr>key = ''roi'', label = ''Annual ROI'', max_pts = W, earned = e,
                           noteOf = BelowMinROI (toFixed 1 (js_mul roi (Num 100)))
                                      (toFixed 1 (Num (m * 100)))\<rparr>]\<rparr>)"

definition scoreDelta :: "trade \<Rightarrow> tolerances option \<Rightarrow> scoring \<Rightarrow> scoring" where
  "scoreDelta t tol s =
     (case tolField maxDelta tol of
        None \<Rightarrow> s
      | Some m \<Rightarrow>
          if m > 0 then
            let W = 25;
                s1 = s\<lparr>totalAcc := totalAcc s + W\<rparr>
            in if delta t \<le> m
               then s1\<lparr>scoreAcc := js_add (scoreAcc s1) (Num W),
                       parts := parts s1 @
                         [\<lparr>key = ''delta'', label = ''Delta'', max_pts = W, earned = Num W,
                           noteOf = WithinMaxDelta\<rparr>]\<rparr>
               else
                 let factor = heavyPenalty (Num (delta t)) (Num m);
                     e = js_mul (Num W) factor
                 in s1\<lparr>scoreAcc := js_add (scoreAcc s1) e,
                         parts := parts s1 @
                           [\<lparr>key = ''delta'', label = ''Delta'', max_pts = W, earned = e,
                             noteOf = ExceedsMaxDelta (toFixed 1 (Num (delta t * 100)))
                                        (toFixed 1 (Num (m * 100)))\<rparr>],
                         penaltyPool := js_add (penaltyPool s1)
                           (addPenaltyFromExceedance (js_div (Num (delta t)) (Num m)))\<rparr>
          else s)"

definition scoreDTE :: "number \<Rightarrow> tolerances option \<Rightarrow> scoring \<Rightarrow> scoring" where
  "scoreDTE d tol s =
     (case tolField maxDTE tol of
        None \<Rightarrow> s
      | Some m \<Rightarrow>
          if m > 0 then
            let W = 15;
                s1 = s\<lparr>totalAcc := totalAcc s + W\<rparr>
            in if js_le d (Num m)
               then s1\<lparr>scoreAcc := js_add (scoreAcc s1) (Num W),
                       parts := parts s1 @
                         [\<lparr>key = ''dte'', label = ''DTE'', max_pts = W, earned = Num W,
                           noteOf = WithinMaxDTE\<rparr>]\<rparr>
               else
                 let factor = heavyPenalty d (Num m);
                     e = js_mul (Num W) factor
                 in s1\<lparr>scoreAcc := js_add (scoreAcc s1) e,
                         parts := parts s1 @
                           [\<lparr>key = ''dte'', label = ''DTE'', max_pts = W, earned = e,
                             noteOf = ExceedsMaxDTE d (Num m)\<rparr>],
                         penaltyPool := js_add (penaltyPool s1)
                           (addPenaltyFromExceedance (js_div d (Num m)))\<rparr>
          else s)"

definition scoreBeta :: "trade \<Rightarrow> tolerances option \<Rightarrow> scoring \<Rightarrow> scoring" where
  "scoreBeta t tol s =
     (case tolField maxBeta tol of
        None \<Rightarrow> s
      | Some m \<Rightarrow>
          if m > 0 then
            let W = 5;
                s1 = s\<lparr>totalAcc := totalAcc s + W\<rparr>
            in if beta t \<le> m
               then s1\<lparr>scoreAcc := js_add (scoreAcc s1) (Num W),
                       parts := parts s1 @
                         [\<lparr>key = ''beta'', label = ''Beta'', max_pts = W, earned = Num W,
                           noteOf = WithinMaxBeta\<rparr>]\<rparr>
               else
                 let factor = heavyPenalty (Num (beta t)) (Num m);
                     e = js_mul (Num W) factor
                 in s1\<lparr>scoreAcc := js_add (scoreAcc s1) e,
                         parts := parts s1 @
                           [\<lparr>key = ''beta'', label = ''Beta'', max_pts = W, earned = e,
                             noteOf = ExceedsMaxBeta (toFixed 2 (Num (beta t)))
                                        (toFixed 2 (Num m))\<rparr>],
                         penaltyPool := js_add (penaltyPool s1)
                           (addPenaltyFromExceedance (js_div (Num (beta t)) (Num m)))\<rparr>
          else s)"

definition collateralEarned :: "real \<Rightarrow> real \<times> partNote" where
  "collateralEarned c =
     (if c < 20000 then (10, LowCollateral)
      else if c \<le> 50000 then (5, ModerateCollateral)
      else (2, HighCollateral))"

definition scoreCollateral :: "trade \<Rightarrow> scoring \<Rightarrow> scoring" where
  "scoreCollateral t s =
     (let W = 10;
          s1 = s\<lparr>totalAcc := totalAcc s + W\<rparr>;
          (e, n) = collateralEarned (collateralAtRiskOf t)
      in s1\<lparr>scoreAcc := js_add (scoreAcc s1) (Num e),
              parts := parts s1 @
                [\<lparr>key = ''collateral'', label = ''Collateral at Risk'', max_pts = W,
                  earned = Num e, noteOf = n\<rparr>]\<rparr>)"

definition supportEarned :: "real \<Rightarrow> real \<times> partNote" where
  "supportEarned v =
     (if v \<ge> 10 then (10, StrongSupport)
      else if v \<ge> 5 then (5, ModerateSupport)
      else (2, SupportBelow5))"

definition scoreSupport :: "trade \<Rightarrow> scoring \<Rightarrow> scoring" where
  "scoreSupport t s =
     (case supportVariancePctOf t of
        None \<Rightarrow> s
      | Some v \<Rightarrow>
          let W = 10;
              s1 = s\<lparr>totalAcc := totalAcc s + W\<rparr>;
              (e, n) = supportEarned v
          in s1\<lparr>scoreAcc := js_add (scoreAcc s1) (Num e),
                  parts := parts s1 @
                    [\<lparr>key = ''support'', label = ''Support Variance %'', max_pts = W,
                      earned = Num e, noteOf = n\<rparr>]\<rparr>)"

text \<open>The six criteria in the order of the source.\<close>

definition scoreAll :: "(string \<Rightarrow> number) \<Rightarrow> tolerances option \<Rightarrow> trade \<Rightarrow> scoring" where
  "scoreAll getTime tol t =
     scoreSupport t
       (scoreCollateral t
          (scoreBeta t tol
             (scoreDTE (dteOf getTime t) tol
                (scoreDelta t tol
                   (scoreROI (annualROIOf getTime t) tol scoring0)))))"

definition penaltiesAppliedOf :: "scoring \<Rightarrow> number" where
  "penaltiesAppliedOf s =
     Math_min (Num maxPenaltyPool)
       (js_mul (Num maxPenaltyPool) (Math_max (Num 0) (Math_min (Num 1) (penaltyPool s))))"

definition pointsFinalOf :: "scoring \<Rightarrow> number" where
  "pointsFinalOf s = Math_max (Num 0) (js_sub (scoreAcc s) (penaltiesAppliedOf s))"

definition finalScoreOf :: "scoring \<Rightarrow> number" where
  "finalScoreOf s =
     (if totalAcc s > 0
      then js_mul (js_div (pointsFinalOf s) (Num (totalAcc s))) (Num 100)
      else Num 100)"

definition suggestionOf :: "number \<Rightarrow> Suggestion" where
  "suggestionOf finalScore =
     (if js_ge finalScore (Num 90) then Conservative
      else if js_ge finalScore (Num 70) then Neutral
      else Aggressive)"

section \<open>The evaluation of one trade\<close>

definition evaluateTrade :: "(string \<Rightarrow> number) \<Rightarrow> tolerances option \<Rightarrow> trade \<Rightarrow> evaluated" where
  "evaluateTrade getTime tol t =
     (let roi = annualROIOf getTime t;
          thr = hardFailThreshold tol
      in if hardFailOf getTime tol t
         then \<lparr>input = t,
               premium = premiumOf t,
               breakeven = breakevenOf t,
               annualROI = toFixed 4 roi,
               dte = dteOf getTime t,
               score = Num 0,
               suggestion = Aggressive,
               collateralAtRisk = collateralAtRiskOf t,
               supportVariancePct = supportVariancePctOf t,
               hardFail = True,
               breakdown =
                 [\<lparr>key = ''roi-hard-fail'', label = ''Annual ROI'', max_pts = 35,
                   earned = Num 0,
                   noteOf = HardFailNote (toFixed 1 (js_mul roi (Num 100)))
                              (toFixed 1 (Num (thr * 100)))\<rparr>],
               totalPossible = 35,
               pointsBeforePenalties = Num 0,
               penaltiesApplied = Num 0,
               pointsFinal = Num 0\<rparr>
         else
           let s = scoreAll getTime tol t
           in \<lparr>input = t,
                premium = premiumOf t,
                breakeven = breakevenOf t,
                annualROI = toFixed 4 roi,
                dte = dteOf getTime t,
                score = toFixed 1 (finalScoreOf s),
                suggestion = suggestionOf (finalScoreOf s),
                collateralAtRisk = collateralAtRiskOf t,
                supportVariancePct = supportVariancePctOf t,
                hardFail = False,
                breakdown = parts s,
                totalPossible = totalAcc s,
                pointsBeforePenalties = toFixed 2 (scoreAcc s),
                penaltiesApplied = toFixed 2 (penaltiesAppliedOf s),
                pointsFinal = toFixed 2 (pointsFinalOf s)\<rparr>)"

section \<open>The request handler\<close>

text \<open>
  \<open>req.body.trades\<close> is absent, a value that is not an array, or an array of trades;
  \<open>req.body.tolerances\<close> may be absent.
\<close>

datatype tradesInput = Absent | NotAnArray | TradeArray "trade list"

record requestBody =
  bodyTolerances :: "tolerances option"
  bodyTrades :: tradesInput

datatype payload = ErrorPayload string | Results "evaluated list"

record response =
  status :: nat
  json :: payload

definition handler :: "(string \<Rightarrow> number) \<Rightarrow> requestBody \<Rightarrow> response" where
  "handler getTime body =
     (case bodyTrades body of
        TradeArray ts \<Rightarrow>
          if length ts = 0
          then \<lparr>status = 400, json = ErrorPayload ''No trades provided''\<rparr>
          else \<lparr>status = 200, json = Results (map (evaluateTrade getTime (bodyTolerances body)) ts)\<rparr>
      | _ \<Rightarrow> \<lparr>status = 400, json = ErrorPayload ''No trades provided''\<rparr>)"

section \<open>Date-only ISO strings\<close>

text \<open>
  The time value of a string \<open>YYYY-MM-DD\<close>, which JavaScript reads as midnight UTC of
  that day: days since 1 January 1970 times the milliseconds of a day. Any other string
  is \<open>NaN\<close> here. The theorems below hold for every \<open>getTime\<close>; this one serves the
  worked examples.
\<close>

definition digitOf :: "char \<Rightarrow> int option" where
  "digitOf c =
     (let n = (of_char c :: nat)
      in if 48 \<le> n \<and> n \<le> 57 then Some (int n - 48) else None)"

fun digitsOf :: "string \<Rightarrow> int option" where
  "digitsOf [] = None"
| "digitsOf cs =
     foldl (\<lambda>acc c. case (acc, digitOf c) of
                       (Some a, Some d) \<Rightarrow> Some (10 * a + d)
                     | _ \<Rightarrow> None)
           (Some 0) cs"

definition inLeapYear :: "int \<Rightarrow> bool" where
  "inLeapYear y = (y mod 4 = 0 \<and> (y mod 100 \<noteq> 0 \<or> y mod 400 = 0))"

definition dayFromYear :: "int \<Rightarrow> int" where
  "dayFromYear y =
     365 * (y - 1970) + (y - 1969) div 4 - (y - 1901) div 100 + (y - 1601) div 400"

definition daysInMonth :: "int \<Rightarrow> int \<Rightarrow> int" where
  "daysInMonth y m =
     (if m = 2 then (if inLeapYear y then 29 else 28)
      else if m = 4 \<or> m = 6 \<or> m = 9 \<or> m = 11 then 30
      else 31)"

fun daysBeforeMonth :: "int \<Rightarrow> nat \<Rightarrow> int" where
  "daysBeforeMonth y 0 = 0"
| "daysBeforeMonth y (Suc k) = daysBeforeMonth y k + daysInMonth y (int (Suc k))"

definition msPerDay :: int where
  "msPerDay = 86400000"

definition isoTime :: "string \<Rightarrow> number" where
  "isoTime s =
     (if length s = 10 \<and> s ! 4 = CHR ''-'' \<and> s ! 7 = CHR ''-''
      then
        (case (digitsOf (take 4 s), digitsOf (take 2 (drop 5 s)), digitsOf (drop 8 s)) of
           (Some y, Some m, Some d) \<Rightarrow>
             if 1 \<le> m \<and> m \<le> 12 \<and> 1 \<le> d \<and> d \<le> daysInMonth y m
             then Num (of_int ((dayFromYear y + daysBeforeMonth y (nat (m - 1)) + d - 1)
                               * msPerDay))
             else NaN
         | _ \<Rightarrow> NaN)
      else NaN)"

section \<open>Specification-side definitions\<close>

text \<open>
  The formulas of the specification, written after its words, to be compared with what the
  evaluator computes.
\<close>

definition clamp01 :: "real \<Rightarrow> real" where
  "clamp01 x = max 0 (min 1 x)"

definition specHeavyPenalty :: "real \<Rightarrow> real \<Rightarrow> real" where
  "specHeavyPenalty v m = (if v \<le> m then 1 else clamp01 ((m / v)\<^sup>2))"

definition specSeverity :: "real \<Rightarrow> real option \<Rightarrow> real" where
  "specSeverity v limit =
     (case limit of
        None \<Rightarrow> 0
      | Some m \<Rightarrow> if m > 0 \<and> v > m then max 0 (1 - 1 / (v / m)) else 0)"

text \<open>
  The penalty pool of the specification: the severities of the delta, DTE and beta
  criteria, where \<open>d\<close> is the number of days to expiration.
\<close>

definition specPenaltyPool :: "tolerances option \<Rightarrow> real \<Rightarrow> trade \<Rightarrow> real" where
  "specPenaltyPool tol d t =
     specSeverity (delta t) (tolField maxDelta tol)
     + specSeverity d (tolField maxDTE tol)
     + specSeverity (beta t) (tolField maxBeta tol)"

text \<open>The sum of the earned points of a breakdown, added up in its order.\<close>

definition sumEarned :: "part list \<Rightarrow> number" where
  "sumEarned ps = foldl js_add (Num 0) (map earned ps)"

text \<open>The entries of a breakdown under one key.\<close>

definition partsWithKey :: "string \<Rightarrow> part list \<Rightarrow> part list" where
  "partsWithKey k ps = filter (\<lambda>p. key p = k) ps"

text \<open>
  A trade has valid dates when the runtime reads both of its date strings as dates;
  otherwise \<open>dte\<close>, and with it \<open>annualROI\<close>, is \<open>NaN\<close>. The source does not
  validate the date strings.
\<close>

definition validDates :: "(string \<Rightarrow> number) \<Rightarrow> trade \<Rightarrow> bool" where
  "validDates getTime t = (getTime (tradeDate t) \<noteq> NaN \<and> getTime (expirationDate t) \<noteq> NaN)"

text \<open>The bound \<open>0 \<le> earned \<le> max\<close> of a breakdown entry.\<close>

definition earnedWithinMax :: "part \<Rightarrow> bool" where
  "earnedWithinMax p = (js_le (Num 0) (earned p) \<and> js_le (earned p) (Num (max_pts p)))"

text \<open>
  The invariant of the scoring ledger: every entry within its maximum, the running score
  between 0 and the running total, the penalty pool a number.
\<close>

definition ledgerOk :: "scoring \<Rightarrow> bool" where
  "ledgerOk s =
     (list_all earnedWithinMax (parts s)
      \<and> js_le (Num 0) (scoreAcc s) \<and> js_le (scoreAcc s) (Num (totalAcc s))
      \<and> penaltyPool s \<noteq> NaN)"

text \<open>
  What one scored criterion does to the ledger: weight \<open>W\<close>, earned points \<open>e\<close>,
  severity \<open>q\<close> added to the pool.
\<close>

definition addCriterion ::
  "string \<Rightarrow> string \<Rightarrow> real \<Rightarrow> real \<Rightarrow> partNote \<Rightarrow> real \<Rightarrow> scoring \<Rightarrow> scoring" where
  "addCriterion k l W e n q s =
     s\<lparr>totalAcc := totalAcc s + W,
       scoreAcc := js_add (scoreAcc s) (Num e),
       parts := parts s @ [\<lparr>key = k, label = l, max_pts = W, earned = Num e, noteOf = n\<rparr>],
       penaltyPool := js_add (penaltyPool s) (Num q)\<rparr>"

text \<open>
  No tolerance field is set: the tolerances object is absent or has none of the four
  fields. What is scored then are the collateral criterion and, when the support variance
  applies, the support criterion.
\<close>

definition noTolerances :: "tolerances option \<Rightarrow> bool" where
  "noTolerances tol =
     (tolField maxDTE tol = None \<and> tolField minROI tol = None
      \<and> tolField maxBeta tol = None \<and> tolField maxDelta tol = None)"

definition untolerancedPoints :: "trade \<Rightarrow> real" where
  "untolerancedPoints t =
     fst (collateralEarned (collateralAtRiskOf t))
     + (case supportVariancePctOf t of None \<Rightarrow> 0 | Some v \<Rightarrow> fst (supportEarned v))"

definition untolerancedTotal :: "trade \<Rightarrow> real" where
  "untolerancedTotal t = 10 + (case supportVariancePctOf t of None \<Rightarrow> 0 | Some v \<Rightarrow> 10)"

text \<open>The \<open>EmptyInput\<close> answer of the handler.\<close>

definition emptyInput :: response where
  "emptyInput = \<lparr>status = 400, json = ErrorPayload ''No trades provided''\<rparr>"

section \<open>Worked examples\<close>

text \<open>
  The trade of the specification's hard-fail example: strike 100, bid 1, ten days to
  expiration, so \<open>annualROI = 0.365\<close>; its delta is that of the partial-credit
  example.
\<close>

definition specTrade :: trade where
  "specTrade = \<lparr>symbol = ''XYZ'', tradeDate = ''2024-01-01'', expirationDate = ''2024-01-11'',
          optType = Put, strike = 100, bid = 1, supportLevel = None, beta = 1, delta = 0.6\<rparr>"

text \<open>The same trade with the two dates swapped: expiration before the trade date.\<close>

definition pastTrade :: trade where
  "pastTrade = specTrade\<lparr>tradeDate := ''2024-01-11'', expirationDate := ''2024-01-01''\<rparr>"

text \<open>A call with the same ROI and a collateral of 60000.\<close>

definition highCollateralTrade :: trade where
  "highCollateralTrade = specTrade\<lparr>optType := Call, strike := 600, bid := 6\<rparr>"

definition minROIOnly :: "real \<Rightarrow> tolerances" where
  "minROIOnly m = \<lparr>maxDTE = None, minROI = Some m, maxBeta = None, maxDelta = None\<rparr>"

definition tightTolerances :: tolerances where
  "tightTolerances = \<lparr>maxDTE = Some 5, minROI = Some 0.3, maxBeta = Some 0.5, maxDelta = Some 0.3\<rparr>"

definition emptyTolerances :: tolerances where
  "emptyTolerances = \<lparr>maxDTE = None, minROI = None, maxBeta = None, maxDelta = None\<rparr>"

text \<open>
  The trade of the examples with an expiration date that is no date: its numeric fields
  are finite, and the runtime reads the string as an invalid date.
\<close>

definition badDateTrade :: trade where
  "badDateTrade = specTrade\<lparr>expirationDate := ''not-a-date''\<rparr>"

definition maxDTEOnly :: "real \<Rightarrow> tolerances" where
  "maxDTEOnly m = \<lparr>maxDTE = Some m, minROI = None, maxBeta = None, maxDelta = None\<rparr>"

section \<open>Facts about the helpers\<close>

lemma heavyPenalty_exceeds:
  assumes "0 < m" and "m < v"
  shows "heavyPenalty (Num v) (Num m) = Num ((m / v)\<^sup>2)"
    and "0 \<le> (m / v)\<^sup>2" and "(m / v)\<^sup>2 \<le> 1"
proof -
  have v: "0 < v" using assms by linarith
  have r: "0 \<le> m / v" "m / v \<le> 1" using assms v by simp_all
  then have sq: "(m / v) * (m / v) \<le> 1"
    by (intro mult_le_one)
  show "0 \<le> (m / v)\<^sup>2" by simp
  show "(m / v)\<^sup>2 \<le> 1" using sq by (simp add: power2_eq_square)
  show "heavyPenalty (Num v) (Num m) = Num ((m / v)\<^sup>2)"
    using assms v sq by (simp add: heavyPenalty_def Let_def power2_eq_square)
qed

lemma heavyPenalty_spec:
  assumes "0 < m"
  shows "heavyPenalty (Num v) (Num m) = Num (specHeavyPenalty v m)"
proof (cases "v \<le> m")
  case True
  then show ?thesis by (simp add: heavyPenalty_def specHeavyPenalty_def)
next
  case False
  then have "m < v" by simp
  from heavyPenalty_exceeds [OF assms this] False show ?thesis
    by (simp add: specHeavyPenalty_def clamp01_def)
qed

lemma specHeavyPenalty_range:
  assumes "0 < m"
  shows "0 \<le> specHeavyPenalty v m" and "specHeavyPenalty v m \<le> 1"
  by (simp_all add: specHeavyPenalty_def clamp01_def)

lemma exceedance_severity:
  assumes "0 < m"
  shows "addPenaltyFromExceedance (Num (v / m)) = Num (specSeverity v (Some m))"
  using assms by (simp add: addPenaltyFromExceedance_def Let_def specSeverity_def)

lemma specSeverity_unset:
  "limit = None \<or> (\<exists>m. limit = Some m \<and> m \<le> 0) \<Longrightarrow> specSeverity v limit = 0"
  by (auto simp: specSeverity_def)

lemma js_add_zero: "x \<noteq> NaN \<Longrightarrow> js_add x (Num 0) = x"
  by (cases x) simp_all

subsection \<open>Shape of each criterion\<close>

lemma scoreROI_unset:
  "tolField minROI tol = None \<Longrightarrow> scoreROI roi tol s = s"
  by (simp add: scoreROI_def)

lemma scoreROI_met:
  assumes "tolField minROI tol = Some m" and "js_ge roi (Num m)" and "penaltyPool s \<noteq> NaN"
  shows "scoreROI roi tol s = addCriterion ''roi'' ''Annual ROI'' 35 35 MeetsMinROI 0 s"
  using assms by (simp add: scoreROI_def addCriterion_def Let_def js_add_zero)

lemma scoreDelta_unset:
  "tolField maxDelta tol = None \<or> (\<exists>m. tolField maxDelta tol = Some m \<and> m \<le> 0)
     \<Longrightarrow> scoreDelta t tol s = s"
  by (auto simp: scoreDelta_def)

lemma scoreDelta_set:
  assumes "tolField maxDelta tol = Some m" and "0 < m" and "penaltyPool s \<noteq> NaN"
  shows "\<exists>n. scoreDelta t tol s =
           addCriterion ''delta'' ''Delta'' 25 (25 * specHeavyPenalty (delta t) m) n
             (specSeverity (delta t) (Some m)) s"
proof (cases "delta t \<le> m")
  case True
  then show ?thesis using assms
    by (intro exI [of _ WithinMaxDelta])
       (simp add: scoreDelta_def addCriterion_def Let_def js_add_zero specHeavyPenalty_def
          specSeverity_def)
next
  case False
  then have gt: "m < delta t" by simp
  show ?thesis using assms False
    by (intro exI [of _ "ExceedsMaxDelta (toFixed 1 (Num (delta t * 100))) (toFixed 1 (Num (m * 100)))"])
       (simp add: scoreDelta_def addCriterion_def Let_def heavyPenalty_spec
          exceedance_severity)
qed

lemma scoreDTE_unset:
  "tolField maxDTE tol = None \<or> (\<exists>m. tolField maxDTE tol = Some m \<and> m \<le> 0)
     \<Longrightarrow> scoreDTE d tol s = s"
  by (auto simp: scoreDTE_def)

lemma scoreDTE_set:
  assumes "tolField maxDTE tol = Some m" and "0 < m" and "penaltyPool s \<noteq> NaN"
  shows "\<exists>n. scoreDTE (Num d) tol s =
           addCriterion ''dte'' ''DTE'' 15 (15 * specHeavyPenalty d m) n
             (specSeverity d (Some m)) s"
proof (cases "d \<le> m")
  case True
  then show ?thesis using assms
    by (intro exI [of _ WithinMaxDTE])
       (simp add: scoreDTE_def addCriterion_def Let_def js_add_zero specHeavyPenalty_def
          specSeverity_def)
next
  case False
  then have gt: "m < d" by simp
  show ?thesis using assms False
    by (intro exI [of _ "ExceedsMaxDTE (Num d) (Num m)"])
       (simp add: scoreDTE_def addCriterion_def Let_def heavyPenalty_spec
          exceedance_severity)
qed

lemma scoreBeta_unset:
  "tolField maxBeta tol = None \<or> (\<exists>m. tolField maxBeta tol = Some m \<and> m \<le> 0)
     \<Longrightarrow> scoreBeta t tol s = s"
  by (auto simp: scoreBeta_def)

lemma scoreBeta_set:
  assumes "tolField maxBeta tol = Some m" and "0 < m" and "penaltyPool s \<noteq> NaN"
  shows "\<exists>n. scoreBeta t tol s =
           addCriterion ''beta'' ''Beta'' 5 (5 * specHeavyPenalty (beta t) m) n
             (specSeverity (beta t) (Some m)) s"
proof (cases "beta t \<le> m")
  case True
  then show ?thesis using assms
    by (intro exI [of _ WithinMaxBeta])
       (simp add: scoreBeta_def addCriterion_def Let_def js_add_zero specHeavyPenalty_def
          specSeverity_def)
next
  case False
  then have gt: "m < beta t" by simp
  show ?thesis using assms False
    by (intro exI [of _ "ExceedsMaxBeta (toFixed 2 (Num (beta t))) (toFixed 2 (Num m))"])
       (simp add: scoreBeta_def addCriterion_def Let_def heavyPenalty_spec
          exceedance_severity)
qed

lemma scoreCollateral_shape:
  assumes "penaltyPool s \<noteq> NaN"
  shows "scoreCollateral t s =
           addCriterion ''collateral'' ''Collateral at Risk'' 10
             (fst (collateralEarned (collateralAtRiskOf t)))
             (snd (collateralEarned (collateralAtRiskOf t))) 0 s"
  using assms by (simp add: scoreCollateral_def addCriterion_def Let_def split_def js_add_zero)

lemma scoreSupport_unset:
  "supportVariancePctOf t = None \<Longrightarrow> scoreSupport t s = s"
  by (simp add: scoreSupport_def)

lemma scoreSupport_set:
  assumes "supportVariancePctOf t = Some v" and "penaltyPool s \<noteq> NaN"
  shows "scoreSupport t s =
           addCriterion ''support'' ''Support Variance %'' 10
             (fst (supportEarned v)) (snd (supportEarned v)) 0 s"
  using assms by (simp add: scoreSupport_def addCriterion_def Let_def split_def js_add_zero)

lemma scoreCollateral_first:
  "scoreCollateral t scoring0 =
     \<lparr>scoreAcc = Num (fst (collateralEarned (collateralAtRiskOf t))),
      totalAcc = 10,
      penaltyPool = Num 0,
      parts = [\<lparr>key = ''collateral'', label = ''Collateral at Risk'', max_pts = 10,
                earned = Num (fst (collateralEarned (collateralAtRiskOf t))),
                noteOf = snd (collateralEarned (collateralAtRiskOf t))\<rparr>]\<rparr>"
  by (simp add: scoreCollateral_def scoring0_def Let_def split_def)

subsection \<open>Each criterion keeps the ledger within bounds\<close>

lemma ledgerOk_scoring0: "ledgerOk scoring0"
  by (simp add: ledgerOk_def scoring0_def)

lemma ledgerOk_addCriterion:
  assumes "ledgerOk s" and "0 \<le> e" and "e \<le> W"
  shows "ledgerOk (addCriterion k l W e n q s)"
  using assms
  by (cases "penaltyPool s"; cases "scoreAcc s")
     (simp_all add: ledgerOk_def addCriterion_def earnedWithinMax_def)

lemma ledgerOk_pool_finite: "ledgerOk s \<Longrightarrow> penaltyPool s \<noteq> NaN"
  by (simp add: ledgerOk_def)

lemma ledgerOk_scoreROI:
  assumes "ledgerOk s" and "\<And>m. tolField minROI tol = Some m \<Longrightarrow> js_ge roi (Num m)"
  shows "ledgerOk (scoreROI roi tol s)"
proof (cases "tolField minROI tol")
  case None
  then show ?thesis using assms(1) by (simp add: scoreROI_unset)
next
  case (Some m)
  from scoreROI_met [OF Some assms(2) [OF Some] ledgerOk_pool_finite [OF assms(1)]]
  show ?thesis using assms(1) by (simp add: ledgerOk_addCriterion)
qed

lemma ledgerOk_scoreDelta:
  assumes "ledgerOk s"
  shows "ledgerOk (scoreDelta t tol s)"
proof (cases "\<exists>m. tolField maxDelta tol = Some m \<and> 0 < m")
  case True
  then obtain m where m: "tolField maxDelta tol = Some m" "0 < m" by blast
  from scoreDelta_set [OF m ledgerOk_pool_finite [OF assms], of t]
  obtain n where "scoreDelta t tol s =
      addCriterion ''delta'' ''Delta'' 25 (25 * specHeavyPenalty (delta t) m) n
        (specSeverity (delta t) (Some m)) s" by blast
  then show ?thesis
    using assms specHeavyPenalty_range [OF m(2), of "delta t"]
    by (simp add: ledgerOk_addCriterion)
next
  case False
  then have "scoreDelta t tol s = s"
    by (intro scoreDelta_unset) (cases "tolField maxDelta tol"; simp add: not_less)
  then show ?thesis using assms by simp
qed

lemma ledgerOk_scoreDTE:
  assumes "ledgerOk s"
  shows "ledgerOk (scoreDTE (Num d) tol s)"
proof (cases "\<exists>m. tolField maxDTE tol = Some m \<and> 0 < m")
  case True
  then obtain m where m: "tolField maxDTE tol = Some m" "0 < m" by blast
  from scoreDTE_set [OF m ledgerOk_pool_finite [OF assms], of d]
  obtain n where "scoreDTE (Num d) tol s =
      addCriterion ''dte'' ''DTE'' 15 (15 * specHeavyPenalty d m) n
        (specSeverity d (Some m)) s" by blast
  then show ?thesis
    using assms specHeavyPenalty_range [OF m(2), of d]
    by (simp add: ledgerOk_addCriterion)
next
  case False
  then have "scoreDTE (Num d) tol s = s"
    by (intro scoreDTE_unset) (cases "tolField maxDTE tol"; simp add: not_less)
  then show ?thesis using assms by simp
qed

lemma ledgerOk_scoreBeta:
  assumes "ledgerOk s"
  shows "ledgerOk (scoreBeta t tol s)"
proof (cases "\<exists>m. tolField maxBeta tol = Some m \<and> 0 < m")
  case True
  then obtain m where m: "tolField maxBeta tol = Some m" "0 < m" by blast
  from scoreBeta_set [OF m ledgerOk_pool_finite [OF assms], of t]
  obtain n where "scoreBeta t tol s =
      addCriterion ''beta'' ''Beta'' 5 (5 * specHeavyPenalty (beta t) m) n
        (specSeverity (beta t) (Some m)) s" by blast
  then show ?thesis
    using assms specHeavyPenalty_range [OF m(2), of "beta t"]
    by (simp add: ledgerOk_addCriterion)
next
  case False
  then have "scoreBeta t tol s = s"
    by (intro scoreBeta_unset) (cases "tolField maxBeta tol"; simp add: not_less)
  then show ?thesis using assms by simp
qed

lemma collateralEarned_range:
  "0 \<le> fst (collateralEarned c)" "fst (collateralEarned c) \<le> 10"
  by (simp_all add: collateralEarned_def)

lemma supportEarned_range:
  "0 \<le> fst (supportEarned v)" "fst (supportEarned v) \<le> 10"
  by (simp_all add: supportEarned_def)

lemma ledgerOk_scoreCollateral:
  assumes "ledgerOk s"
  shows "ledgerOk (scoreCollateral t s)"
  using assms
  by (simp add: scoreCollateral_shape [OF ledgerOk_pool_finite [OF assms]]
        ledgerOk_addCriterion collateralEarned_range)

lemma ledgerOk_scoreSupport:
  assumes "ledgerOk s"
  shows "ledgerOk (scoreSupport t s)"
proof (cases "supportVariancePctOf t")
  case None
  then show ?thesis using assms by (simp add: scoreSupport_unset)
next
  case (Some v)
  show ?thesis using assms
    by (simp add: scoreSupport_set [OF Some ledgerOk_pool_finite [OF assms]]
          ledgerOk_addCriterion supportEarned_range)
qed

subsection \<open>The total never shrinks; collateral always adds 10\<close>

lemma total_scoreROI: "totalAcc s \<le> totalAcc (scoreROI roi tol s)"
  by (simp add: scoreROI_def Let_def split: option.splits)

lemma total_scoreDelta: "totalAcc s \<le> totalAcc (scoreDelta t tol s)"
  by (simp add: scoreDelta_def Let_def split: option.splits)

lemma total_scoreDTE: "totalAcc s \<le> totalAcc (scoreDTE d tol s)"
  by (simp add: scoreDTE_def Let_def split: option.splits)

lemma total_scoreBeta: "totalAcc s \<le> totalAcc (scoreBeta t tol s)"
  by (simp add: scoreBeta_def Let_def split: option.splits)

lemma total_scoreCollateral: "totalAcc (scoreCollateral t s) = totalAcc s + 10"
  by (simp add: scoreCollateral_def Let_def split_def)

lemma total_scoreSupport: "totalAcc s \<le> totalAcc (scoreSupport t s)"
  by (simp add: scoreSupport_def Let_def split_def split: option.splits)

lemma total_scoreAll: "10 \<le> totalAcc (scoreAll getTime tol t)"
proof -
  let ?s1 = "scoreROI (annualROIOf getTime t) tol scoring0"
  let ?s2 = "scoreDelta t tol ?s1"
  let ?s3 = "scoreDTE (dteOf getTime t) tol ?s2"
  let ?s4 = "scoreBeta t tol ?s3"
  let ?s5 = "scoreCollateral t ?s4"
  have "0 \<le> totalAcc ?s1"
    using total_scoreROI [of scoring0] by (simp add: scoring0_def)
  also have "\<dots> \<le> totalAcc ?s2" by (rule total_scoreDelta)
  also have "\<dots> \<le> totalAcc ?s3" by (rule total_scoreDTE)
  also have "\<dots> \<le> totalAcc ?s4" by (rule total_scoreBeta)
  finally have "10 \<le> totalAcc ?s5" by (simp add: total_scoreCollateral)
  also have "\<dots> \<le> totalAcc (scoreSupport t ?s5)" by (rule total_scoreSupport)
  finally show ?thesis by (simp add: scoreAll_def)
qed

subsection \<open>The running score is the sum of the earned points\<close>

lemma sum_scoreROI:
  "scoreAcc s = sumEarned (parts s) \<Longrightarrow>
   scoreAcc (scoreROI roi tol s) = sumEarned (parts (scoreROI roi tol s))"
  by (simp add: scoreROI_def Let_def sumEarned_def split: option.splits)

lemma sum_scoreDelta:
  "scoreAcc s = sumEarned (parts s) \<Longrightarrow>
   scoreAcc (scoreDelta t tol s) = sumEarned (parts (scoreDelta t tol s))"
  by (simp add: scoreDelta_def Let_def sumEarned_def split: option.splits)

lemma sum_scoreDTE:
  "scoreAcc s = sumEarned (parts s) \<Longrightarrow>
   scoreAcc (scoreDTE d tol s) = sumEarned (parts (scoreDTE d tol s))"
  by (simp add: scoreDTE_def Let_def sumEarned_def split: option.splits)

lemma sum_scoreBeta:
  "scoreAcc s = sumEarned (parts s) \<Longrightarrow>
   scoreAcc (scoreBeta t tol s) = sumEarned (parts (scoreBeta t tol s))"
  by (simp add: scoreBeta_def Let_def sumEarned_def split: option.splits)

lemma sum_scoreCollateral:
  "scoreAcc s = sumEarned (parts s) \<Longrightarrow>
   scoreAcc (scoreCollateral t s) = sumEarned (parts (scoreCollateral t s))"
  by (simp add: scoreCollateral_def Let_def split_def sumEarned_def)

lemma sum_scoreSupport:
  "scoreAcc s = sumEarned (parts s) \<Longrightarrow>
   scoreAcc (scoreSupport t s) = sumEarned (parts (scoreSupport t s))"
  by (simp add: scoreSupport_def Let_def split_def sumEarned_def split: option.splits)

lemma sum_scoreAll: "scoreAcc (scoreAll getTime tol t) = sumEarned (parts (scoreAll getTime tol t))"
  unfolding scoreAll_def
  by (intro sum_scoreSupport sum_scoreCollateral sum_scoreBeta sum_scoreDTE sum_scoreDelta
        sum_scoreROI) (simp add: scoring0_def sumEarned_def)

subsection \<open>What each criterion adds to the penalty pool\<close>

lemma pool_addCriterion:
  "penaltyPool (addCriterion k l W e n q s) = js_add (penaltyPool s) (Num q)"
  by (simp add: addCriterion_def)

lemma pool_scoreROI: "penaltyPool (scoreROI roi tol s) = penaltyPool s"
  by (simp add: scoreROI_def Let_def split: option.splits)

lemma pool_scoreCollateral: "penaltyPool (scoreCollateral t s) = penaltyPool s"
  by (simp add: scoreCollateral_def Let_def split_def)

lemma pool_scoreSupport: "penaltyPool (scoreSupport t s) = penaltyPool s"
  by (simp add: scoreSupport_def Let_def split_def split: option.splits)

lemma pool_scoreDelta:
  assumes "penaltyPool s = Num p"
  shows "penaltyPool (scoreDelta t tol s)
           = Num (p + specSeverity (delta t) (tolField maxDelta tol))"
proof (cases "\<exists>m. tolField maxDelta tol = Some m \<and> 0 < m")
  case True
  then obtain m where m: "tolField maxDelta tol = Some m" "0 < m" by blast
  have fin: "penaltyPool s \<noteq> NaN" using assms by simp
  from scoreDelta_set [OF m fin, of t] obtain n where
    "scoreDelta t tol s = addCriterion ''delta'' ''Delta'' 25
       (25 * specHeavyPenalty (delta t) m) n (specSeverity (delta t) (Some m)) s" by blast
  then show ?thesis using assms m by (simp add: pool_addCriterion)
next
  case False
  then have u: "tolField maxDelta tol = None \<or> (\<exists>m. tolField maxDelta tol = Some m \<and> m \<le> 0)"
    by (cases "tolField maxDelta tol") (simp_all add: not_less)
  show ?thesis using assms by (simp add: scoreDelta_unset [OF u] specSeverity_unset [OF u])
qed

lemma pool_scoreDTE:
  assumes "penaltyPool s = Num p"
  shows "penaltyPool (scoreDTE (Num d) tol s) = Num (p + specSeverity d (tolField maxDTE tol))"
proof (cases "\<exists>m. tolField maxDTE tol = Some m \<and> 0 < m")
  case True
  then obtain m where m: "tolField maxDTE tol = Some m" "0 < m" by blast
  have fin: "penaltyPool s \<noteq> NaN" using assms by simp
  from scoreDTE_set [OF m fin, of d] obtain n where
    "scoreDTE (Num d) tol s = addCriterion ''dte'' ''DTE'' 15
       (15 * specHeavyPenalty d m) n (specSeverity d (Some m)) s" by blast
  then show ?thesis using assms m by (simp add: pool_addCriterion)
next
  case False
  then have u: "tolField maxDTE tol = None \<or> (\<exists>m. tolField maxDTE tol = Some m \<and> m \<le> 0)"
    by (cases "tolField maxDTE tol") (simp_all add: not_less)
  show ?thesis using assms by (simp add: scoreDTE_unset [OF u] specSeverity_unset [OF u])
qed

lemma pool_scoreBeta:
  assumes "penaltyPool s = Num p"
  shows "penaltyPool (scoreBeta t tol s) = Num (p + specSeverity (beta t) (tolField maxBeta tol))"
proof (cases "\<exists>m. tolField maxBeta tol = Some m \<and> 0 < m")
  case True
  then obtain m where m: "tolField maxBeta tol = Some m" "0 < m" by blast
  have fin: "penaltyPool s \<noteq> NaN" using assms by simp
  from scoreBeta_set [OF m fin, of t] obtain n where
    "scoreBeta t tol s = addCriterion ''beta'' ''Beta'' 5
       (5 * specHeavyPenalty (beta t) m) n (specSeverity (beta t) (Some m)) s" by blast
  then show ?thesis using assms m by (simp add: pool_addCriterion)
next
  case False
  then have u: "tolField maxBeta tol = None \<or> (\<exists>m. tolField maxBeta tol = Some m \<and> m \<le> 0)"
    by (cases "tolField maxBeta tol") (simp_all add: not_less)
  show ?thesis using assms by (simp add: scoreBeta_unset [OF u] specSeverity_unset [OF u])
qed

lemma pool_scoreAll:
  assumes "dteOf getTime t = Num d"
  shows "penaltyPool (scoreAll getTime tol t) = Num (specPenaltyPool tol d t)"
proof -
  let ?s1 = "scoreROI (annualROIOf getTime t) tol scoring0"
  have "penaltyPool ?s1 = Num 0" by (simp add: pool_scoreROI scoring0_def)
  from pool_scoreBeta [OF pool_scoreDTE [OF pool_scoreDelta [OF this]]]
  show ?thesis
    by (simp add: scoreAll_def assms pool_scoreSupport pool_scoreCollateral specPenaltyPool_def)
qed

subsection \<open>Each criterion appends at most one entry, under its own key\<close>

lemma partsWithKey_append: "partsWithKey k (ps @ qs) = partsWithKey k ps @ partsWithKey k qs"
  by (simp add: partsWithKey_def)

lemma partsWithKey_addCriterion:
  "partsWithKey k (parts (addCriterion k' l W e n q s)) =
     partsWithKey k (parts s) @
       (if k' = k then [\<lparr>key = k', label = l, max_pts = W, earned = Num e, noteOf = n\<rparr>] else [])"
  by (simp add: partsWithKey_def addCriterion_def)

lemma key_scoreROI:
  "k \<noteq> ''roi'' \<Longrightarrow> partsWithKey k (parts (scoreROI roi tol s)) = partsWithKey k (parts s)"
  by (simp add: scoreROI_def Let_def partsWithKey_def split: option.splits)


lemma key_scoreDTE:
  "k \<noteq> ''dte'' \<Longrightarrow> partsWithKey k (parts (scoreDTE d tol s)) = partsWithKey k (parts s)"
  by (simp add: scoreDTE_def Let_def partsWithKey_def split: option.splits)

lemma key_scoreBeta:
  "k \<noteq> ''beta'' \<Longrightarrow> partsWithKey k (parts (scoreBeta t tol s)) = partsWithKey k (parts s)"
  by (simp add: scoreBeta_def Let_def partsWithKey_def split: option.splits)

lemma key_scoreCollateral:
  "k \<noteq> ''collateral'' \<Longrightarrow>
   partsWithKey k (parts (scoreCollateral t s)) = partsWithKey k (parts s)"
  by (simp add: scoreCollateral_def Let_def split_def partsWithKey_def)

lemma key_scoreSupport:
  "k \<noteq> ''support'' \<Longrightarrow> partsWithKey k (parts (scoreSupport t s)) = partsWithKey k (parts s)"
  by (simp add: scoreSupport_def Let_def split_def partsWithKey_def split: option.splits)

lemma delta_parts_scoreAll:
  "partsWithKey ''delta'' (parts (scoreAll getTime tol t))
     = partsWithKey ''delta'' (parts (scoreDelta t tol (scoreROI (annualROIOf getTime t) tol scoring0)))"
  by (simp add: scoreAll_def key_scoreSupport key_scoreCollateral key_scoreBeta key_scoreDTE)


subsection \<open>Rounding at the output boundary\<close>

lemma roundMagnitude_mono:
  assumes "x \<le> y"
  shows "roundMagnitude d x \<le> roundMagnitude d y"
proof -
  have "x * 10 ^ d + 1 / 2 \<le> y * 10 ^ d + 1 / 2" using assms by simp
  then have "\<lfloor>x * 10 ^ d + 1 / 2\<rfloor> \<le> \<lfloor>y * 10 ^ d + 1 / 2\<rfloor>" by (rule floor_mono)
  then show ?thesis by (simp add: roundMagnitude_def divide_right_mono)
qed

lemma roundMagnitude_nonneg:
  assumes "0 \<le> x"
  shows "0 \<le> roundMagnitude d x"
proof -
  have "0 \<le> x * 10 ^ d + 1 / 2" using assms by simp
  then have "0 \<le> \<lfloor>x * 10 ^ d + 1 / 2\<rfloor>" by simp
  then show ?thesis by (simp add: roundMagnitude_def)
qed

lemma roundMagnitude_of_int:
  "roundMagnitude d (of_int k) = of_int k"
proof -
  have "\<lfloor>of_int (k * 10 ^ d) + (1 / 2 :: real)\<rfloor> = k * 10 ^ d"
    by (rule floor_unique) simp_all
  then have "\<lfloor>of_int k * (10::real) ^ d + 1 / 2\<rfloor> = k * 10 ^ d"
    by simp
  then show ?thesis by (simp add: roundMagnitude_def)
qed

lemma toFixedReal_small:
  assumes "0 \<le> x" and "x \<le> 100"
  shows "toFixedReal d x = roundMagnitude d x"
  using assms by (simp add: toFixedReal_def)

lemma toFixedReal_range:
  assumes "0 \<le> x" and "x \<le> 100"
  shows "0 \<le> toFixedReal d x" and "toFixedReal d x \<le> 100"
proof -
  show "0 \<le> toFixedReal d x"
    using assms by (simp add: toFixedReal_small roundMagnitude_nonneg)
  have "roundMagnitude d x \<le> roundMagnitude d 100"
    using assms by (intro roundMagnitude_mono)
  moreover have "roundMagnitude d 100 = 100"
    using roundMagnitude_of_int [of d 100] by simp
  ultimately show "toFixedReal d x \<le> 100"
    using assms by (simp add: toFixedReal_small)
qed

lemma toFixedReal_mono:
  assumes "0 \<le> x" and "x \<le> y"
  shows "toFixedReal d x \<le> toFixedReal d y"
proof (cases "y < 10 ^ 21")
  case True
  then show ?thesis using assms by (simp add: toFixedReal_def roundMagnitude_mono)
next
  case False
  show ?thesis
  proof (cases "x < 10 ^ 21")
    case True
    have "roundMagnitude d x \<le> roundMagnitude d (10 ^ 21)"
      using True by (intro roundMagnitude_mono) simp
    moreover have "roundMagnitude d (10 ^ 21) = 10 ^ 21"
      using roundMagnitude_of_int [of d "10 ^ 21"] by simp
    ultimately show ?thesis using assms True False by (simp add: toFixedReal_def)
  next
    case False
    then show ?thesis using assms by (simp add: toFixedReal_def)
  qed
qed

lemma toFixedReal_of_int: "toFixedReal d (of_int k) = of_int k"
proof (cases "k < 0")
  case True
  have "roundMagnitude d (of_int (- k)) = of_int (- k)" by (rule roundMagnitude_of_int)
  then show ?thesis using True by (simp add: toFixedReal_def)
next
  case False
  then show ?thesis by (simp add: toFixedReal_def roundMagnitude_of_int)
qed

lemma toFixedReal_numeral: "toFixedReal d (numeral n) = numeral n"
  using toFixedReal_of_int [of d "numeral n"] by simp

subsection \<open>The ledger after the criteria\<close>

lemma penaltiesApplied_value:
  assumes "penaltyPool s = Num p"
  shows "penaltiesAppliedOf s = Num (min 15 (15 * clamp01 p))"
  using assms by (simp add: penaltiesAppliedOf_def maxPenaltyPool_def clamp01_def)

lemma penalties_range: "0 \<le> min 15 (15 * clamp01 p)"
  by (simp add: clamp01_def)

lemma pointsFinal_value:
  assumes "penaltyPool s = Num p" and "scoreAcc s = Num sc"
  shows "pointsFinalOf s = Num (max 0 (sc - min 15 (15 * clamp01 p)))"
  using assms by (simp add: pointsFinalOf_def penaltiesApplied_value)

lemma finalScore_value:
  assumes "penaltyPool s = Num p" and "scoreAcc s = Num sc" and "0 < totalAcc s"
  shows "finalScoreOf s = Num (max 0 (sc - min 15 (15 * clamp01 p)) / totalAcc s * 100)"
  using assms by (simp add: finalScoreOf_def pointsFinal_value)

lemma finalScore_range:
  assumes "0 \<le> sc" and "sc \<le> T" and "0 < T" and "0 \<le> pen"
  shows "0 \<le> max 0 (sc - pen) / T * 100" and "max 0 (sc - pen) / T * 100 \<le> (100::real)"
proof -
  define M where "M = max 0 (sc - pen)"
  have M: "0 \<le> M" "M \<le> T" using assms by (simp_all add: M_def)
  have "M / T * 100 \<le> 100" using M assms(3) by (simp add: field_simps)
  then show "max 0 (sc - pen) / T * 100 \<le> 100" by (simp add: M_def)
  have "0 \<le> M / T * 100" using M assms(3) by simp
  then show "0 \<le> max 0 (sc - pen) / T * 100" by (simp add: M_def)
qed

subsection \<open>Derived metrics on valid dates\<close>

lemma dte_finite:
  assumes "validDates getTime t"
  shows "\<exists>d. dteOf getTime t = Num d \<and> 1 \<le> d"
proof -
  obtain a b where "getTime (tradeDate t) = Num a" "getTime (expirationDate t) = Num b"
    using assms by (cases "getTime (tradeDate t)"; cases "getTime (expirationDate t)")
                   (simp_all add: validDates_def)
  then show ?thesis by (simp add: dteOf_def)
qed

lemma roi_finite:
  assumes "dteOf getTime t = Num d" and "1 \<le> d"
  shows "annualROIOf getTime t = Num ((if strike t > 0 then bid t / strike t else 0) * (365 / d))"
  using assms by (simp add: annualROIOf_def)

lemma roi_meets_minimum:
  assumes "annualROIOf getTime t = Num r" and "\<not> hardFailOf getTime tol t"
    and "tolField minROI tol = Some m"
  shows "js_ge (annualROIOf getTime t) (Num m)"
  using assms by (simp add: hardFailOf_def hardFailThreshold_def)

lemma dte_number_valid:
  assumes "dteOf getTime t = Num d"
  shows "validDates getTime t"
  using assms
  by (cases "getTime (tradeDate t)"; cases "getTime (expirationDate t)")
     (simp_all add: dteOf_def validDates_def)

lemma ledgerOk_scoreAll:
  assumes "validDates getTime t" and "\<not> hardFailOf getTime tol t"
  shows "ledgerOk (scoreAll getTime tol t)"
proof -
  obtain d where d: "dteOf getTime t = Num d" "1 \<le> d"
    using dte_finite [OF assms(1)] by blast
  note r = roi_finite [OF d]
  have "ledgerOk (scoreROI (annualROIOf getTime t) tol scoring0)"
    by (intro ledgerOk_scoreROI ledgerOk_scoring0 roi_meets_minimum [OF r assms(2)])
  then show ?thesis
    unfolding scoreAll_def d(1)
    by (intro ledgerOk_scoreSupport ledgerOk_scoreCollateral ledgerOk_scoreBeta
          ledgerOk_scoreDTE ledgerOk_scoreDelta)
qed

lemma ledgerOk_values:
  assumes "ledgerOk s"
  obtains sc p where "scoreAcc s = Num sc" and "0 \<le> sc" and "sc \<le> totalAcc s"
    and "penaltyPool s = Num p"
  using assms
  by (cases "scoreAcc s"; cases "penaltyPool s") (simp_all add: ledgerOk_def)

subsection \<open>The result of a trade that is not hard-failed\<close>

lemma evaluateTrade_scored:
  assumes "\<not> hardFailOf getTime tol t"
  shows "evaluateTrade getTime tol t =
           \<lparr>input = t,
            premium = premiumOf t,
            breakeven = breakevenOf t,
            annualROI = toFixed 4 (annualROIOf getTime t),
            dte = dteOf getTime t,
            score = toFixed 1 (finalScoreOf (scoreAll getTime tol t)),
            suggestion = suggestionOf (finalScoreOf (scoreAll getTime tol t)),
            collateralAtRisk = collateralAtRiskOf t,
            supportVariancePct = supportVariancePctOf t,
            hardFail = False,
            breakdown = parts (scoreAll getTime tol t),
            totalPossible = totalAcc (scoreAll getTime tol t),
            pointsBeforePenalties = toFixed 2 (scoreAcc (scoreAll getTime tol t)),
            penaltiesApplied = toFixed 2 (penaltiesAppliedOf (scoreAll getTime tol t)),
            pointsFinal = toFixed 2 (pointsFinalOf (scoreAll getTime tol t))\<rparr>"
  using assms by (simp add: evaluateTrade_def Let_def)

subsection \<open>Scoring without tolerances\<close>

lemma scoreAll_noTolerances:
  assumes "noTolerances tol"
  shows "scoreAll getTime tol t = scoreSupport t (scoreCollateral t scoring0)"
  using assms
  by (simp add: noTolerances_def scoreAll_def scoreROI_unset scoreDelta_unset scoreDTE_unset
        scoreBeta_unset)

lemma hardFail_noTolerances:
  assumes "noTolerances tol"
  shows "hardFailOf getTime tol t = js_lt (annualROIOf getTime t) (Num 0.30)"
  using assms by (simp add: noTolerances_def hardFailOf_def hardFailThreshold_def)

lemma untolerancedPoints_cases:
  "(untolerancedTotal t = 10 \<and> untolerancedPoints t \<in> {10, 5, 2})
   \<or> (untolerancedTotal t = 20 \<and> untolerancedPoints t \<in> {20, 15, 12, 10, 7, 4})"
  by (simp add: untolerancedTotal_def untolerancedPoints_def collateralEarned_def
        supportEarned_def split: option.splits)

lemma untolerancedPoints_full:
  "(untolerancedPoints t = untolerancedTotal t)
     = (collateralAtRiskOf t < 20000 \<and> (\<forall>v. supportVariancePctOf t = Some v \<longrightarrow> 10 \<le> v))"
  by (auto simp: untolerancedTotal_def untolerancedPoints_def collateralEarned_def
        supportEarned_def split: option.splits)

lemma ledger_noTolerances:
  assumes "noTolerances tol"
  shows "totalAcc (scoreAll getTime tol t) = untolerancedTotal t"
    and "finalScoreOf (scoreAll getTime tol t)
           = Num (untolerancedPoints t / untolerancedTotal t * 100)"
proof -
  note all = scoreAll_noTolerances [OF assms, of getTime t]
  have ce: "0 \<le> fst (collateralEarned (collateralAtRiskOf t))"
    by (rule collateralEarned_range)
  show "totalAcc (scoreAll getTime tol t) = untolerancedTotal t"
    by (simp add: all scoreCollateral_first scoreSupport_def Let_def split_def
          untolerancedTotal_def split: option.splits)
  show "finalScoreOf (scoreAll getTime tol t)
           = Num (untolerancedPoints t / untolerancedTotal t * 100)"
  proof (cases "supportVariancePctOf t")
    case None
    then show ?thesis using ce
      by (simp add: all scoreCollateral_first scoreSupport_def
            untolerancedTotal_def untolerancedPoints_def finalScoreOf_def
            pointsFinalOf_def penaltiesAppliedOf_def maxPenaltyPool_def)
  next
    case (Some v)
    then show ?thesis
      using ce supportEarned_range(1) [of v]
      by (simp add: all scoreCollateral_first scoreSupport_def Let_def split_def
            untolerancedTotal_def untolerancedPoints_def finalScoreOf_def
            pointsFinalOf_def penaltiesAppliedOf_def maxPenaltyPool_def)
  qed
qed

lemma untoleranced_score_exact:
  "toFixedReal d (untolerancedPoints t / untolerancedTotal t * 100)
     = untolerancedPoints t / untolerancedTotal t * 100"
  using untolerancedPoints_cases [of t]
  by (auto simp: toFixedReal_numeral)

lemma untolerancedTotal_pos: "0 < untolerancedTotal t"
  by (simp add: untolerancedTotal_def split: option.splits)

lemma untoleranced_full_score:
  "(untolerancedPoints t / untolerancedTotal t * 100 = 100)
     = (collateralAtRiskOf t < 20000 \<and> (\<forall>v. supportVariancePctOf t = Some v \<longrightarrow> 10 \<le> v))"
  using untolerancedTotal_pos [of t]
  by (simp add: untolerancedPoints_full [symmetric] field_simps)

lemma score_noTolerances:
  assumes nt: "noTolerances tol" and nhf: "\<not> hardFailOf getTime tol t"
  shows "score (evaluateTrade getTime tol t)
           = Num (untolerancedPoints t / untolerancedTotal t * 100)"
proof -
  have "score (evaluateTrade getTime tol t) = toFixed 1 (finalScoreOf (scoreAll getTime tol t))"
    by (simp add: evaluateTrade_scored [OF nhf])
  also have "\<dots> = toFixed 1 (Num (untolerancedPoints t / untolerancedTotal t * 100))"
    by (simp only: ledger_noTolerances(2) [OF nt])
  also have "\<dots> = Num (untolerancedPoints t / untolerancedTotal t * 100)"
    by (simp only: toFixed.simps untoleranced_score_exact)
  finally show ?thesis .
qed

subsection \<open>The worked examples, evaluated\<close>

lemma isoTime_20240101: "isoTime ''2024-01-01'' = Num 1704067200000"
  by code_simp

lemma isoTime_20240111: "isoTime ''2024-01-11'' = Num 1704931200000"
  by code_simp

lemma validDates_specTrade: "validDates isoTime specTrade"
  by (simp add: validDates_def specTrade_def isoTime_20240101 isoTime_20240111)

lemma dte_specTrade: "dteOf isoTime specTrade = Num 10"
  by (simp add: dteOf_def specTrade_def isoTime_20240101 isoTime_20240111)

lemma roi_specTrade: "annualROIOf isoTime specTrade = Num 0.365"
  by (simp add: annualROIOf_def dte_specTrade) (simp add: specTrade_def)

lemma not_hardFail_specTrade: "\<not> hardFailOf isoTime (Some tightTolerances) specTrade"
  by (simp add: hardFailOf_def hardFailThreshold_def tolField_def tightTolerances_def
        roi_specTrade)

lemma roi_highCollateralTrade: "annualROIOf isoTime highCollateralTrade = Num 0.365"
  by (simp add: annualROIOf_def dteOf_def highCollateralTrade_def specTrade_def
        isoTime_20240101 isoTime_20240111)

lemma noTolerances_empty: "noTolerances (Some emptyTolerances)"
  by (simp add: noTolerances_def tolField_def emptyTolerances_def)

lemma not_hardFail_highCollateral:
  "\<not> hardFailOf isoTime (Some emptyTolerances) highCollateralTrade"
  by (simp add: hardFail_noTolerances [OF noTolerances_empty] roi_highCollateralTrade)

lemma not_hardFail_specTrade_empty: "\<not> hardFailOf isoTime (Some emptyTolerances) specTrade"
  by (simp add: hardFail_noTolerances [OF noTolerances_empty] roi_specTrade)

lemma isoTime_not_a_date: "isoTime ''not-a-date'' = NaN"
  by code_simp

lemma dte_badDateTrade: "dteOf isoTime badDateTrade = NaN"
  by (simp add: dteOf_def badDateTrade_def specTrade_def isoTime_not_a_date)

lemma roi_badDateTrade: "annualROIOf isoTime badDateTrade = NaN"
  by (simp add: annualROIOf_def dte_badDateTrade)

lemma not_hardFail_badDateTrade: "\<not> hardFailOf isoTime tol badDateTrade"
  by (simp add: hardFailOf_def roi_badDateTrade)

lemma scoreAll_tight_badDate:
  "scoreAll isoTime (Some tightTolerances) badDateTrade =
     \<lparr>scoreAcc = NaN, totalAcc = 90, penaltyPool = NaN,
      parts =
        [\<lparr>key = ''roi'', label = ''Annual ROI'', max_pts = 35, earned = NaN,
          noteOf = BelowMinROI NaN (Num 30)\<rparr>,
         \<lparr>key = ''delta'', label = ''Delta'', max_pts = 25, earned = Num 6.25,
          noteOf = ExceedsMaxDelta (Num 60) (Num 30)\<rparr>,
         \<lparr>key = ''dte'', label = ''DTE'', max_pts = 15, earned = NaN,
          noteOf = ExceedsMaxDTE NaN (Num 5)\<rparr>,
         \<lparr>key = ''beta'', label = ''Beta'', max_pts = 5, earned = Num 1.25,
          noteOf = ExceedsMaxBeta (Num 1) (Num 0.5)\<rparr>,
         \<lparr>key = ''collateral'', label = ''Collateral at Risk'', max_pts = 10,
          earned = Num 10, noteOf = LowCollateral\<rparr>]\<rparr>"
  by code_simp

lemma scoreAll_dteOnly_badDate:
  "scoreAll isoTime (Some (maxDTEOnly 5)) badDateTrade =
     \<lparr>scoreAcc = NaN, totalAcc = 25, penaltyPool = NaN,
      parts =
        [\<lparr>key = ''dte'', label = ''DTE'', max_pts = 15, earned = NaN,
          noteOf = ExceedsMaxDTE NaN (Num 5)\<rparr>,
         \<lparr>key = ''collateral'', label = ''Collateral at Risk'', max_pts = 10,
          earned = Num 10, noteOf = LowCollateral\<rparr>]\<rparr>"
  by code_simp

section \<open>The claims\<close>

text \<open>
  C1. Hard fail. A trade whose derived \<open>annualROI\<close> is strictly below the hard-fail
  threshold (\<open>tolerances.minROI\<close> when it is a number, else 0.30) comes back with
  \<open>hardFail = true\<close>, \<open>score = 0\<close>, \<open>suggestion = Aggressive\<close>,
  \<open>totalPossible = 35\<close>, the three ledger fields 0, and a breakdown of exactly one
  entry with key \<open>roi-hard-fail\<close>, max 35 and earned 0. No other criterion contributes:
  the result is the same under any tolerances with the same \<open>minROI\<close>.
\<close>

theorem hard_fail_short_circuit:
  assumes thr: "thr = (case tol of None \<Rightarrow> 0.30
                       | Some x \<Rightarrow> (case minROI x of Some m \<Rightarrow> m | None \<Rightarrow> 0.30))"
    and lt: "js_lt (annualROIOf getTime t) (Num thr)"
  shows "input (evaluateTrade getTime tol t) = t
       \<and> hardFail (evaluateTrade getTime tol t) = True
       \<and> score (evaluateTrade getTime tol t) = Num 0
       \<and> suggestion (evaluateTrade getTime tol t) = Aggressive
       \<and> totalPossible (evaluateTrade getTime tol t) = 35
       \<and> pointsBeforePenalties (evaluateTrade getTime tol t) = Num 0
       \<and> penaltiesApplied (evaluateTrade getTime tol t) = Num 0
       \<and> pointsFinal (evaluateTrade getTime tol t) = Num 0
       \<and> length (breakdown (evaluateTrade getTime tol t)) = 1
       \<and> map (\<lambda>p. (key p, max_pts p, earned p)) (breakdown (evaluateTrade getTime tol t))
           = [(''roi-hard-fail'', 35, Num 0)]
       \<and> (\<forall>tol'. tolField minROI tol' = tolField minROI tol
             \<longrightarrow> evaluateTrade getTime tol' t = evaluateTrade getTime tol t)"
proof -
  have h: "hardFailThreshold tol = thr"
    using thr by (simp add: hardFailThreshold_def tolField_def split: option.splits)
  have hf: "hardFailOf getTime tol t"
    using lt h by (simp add: hardFailOf_def)
  have same: "evaluateTrade getTime tol' t = evaluateTrade getTime tol t"
    if "tolField minROI tol' = tolField minROI tol" for tol'
  proof -
    have h': "hardFailThreshold tol' = thr"
      using that h by (simp add: hardFailThreshold_def)
    then have "hardFailOf getTime tol' t"
      using lt by (simp add: hardFailOf_def)
    then show ?thesis
      using hf h h' by (simp add: evaluateTrade_def Let_def)
  qed
  have fields: "input (evaluateTrade getTime tol t) = t
       \<and> hardFail (evaluateTrade getTime tol t) = True
       \<and> score (evaluateTrade getTime tol t) = Num 0
       \<and> suggestion (evaluateTrade getTime tol t) = Aggressive
       \<and> totalPossible (evaluateTrade getTime tol t) = 35
       \<and> pointsBeforePenalties (evaluateTrade getTime tol t) = Num 0
       \<and> penaltiesApplied (evaluateTrade getTime tol t) = Num 0
       \<and> pointsFinal (evaluateTrade getTime tol t) = Num 0
       \<and> length (breakdown (evaluateTrade getTime tol t)) = 1
       \<and> map (\<lambda>p. (key p, max_pts p, earned p)) (breakdown (evaluateTrade getTime tol t))
           = [(''roi-hard-fail'', 35, Num 0)]"
    using hf by (simp add: evaluateTrade_def Let_def)
  from fields same show ?thesis by blast
qed

theorem hard_fail_short_circuit_witness:
  "js_lt (annualROIOf isoTime specTrade) (Num 0.5)
   \<and> hardFail (evaluateTrade isoTime (Some (minROIOnly 0.5)) specTrade) = True
   \<and> score (evaluateTrade isoTime (Some (minROIOnly 0.5)) specTrade) = Num 0
   \<and> suggestion (evaluateTrade isoTime (Some (minROIOnly 0.5)) specTrade) = Aggressive
   \<and> map (\<lambda>p. (key p, max_pts p, earned p))
        (breakdown (evaluateTrade isoTime (Some (minROIOnly 0.5)) specTrade))
       = [(''roi-hard-fail'', 35, Num 0)]"
proof -
  have lt: "js_lt (annualROIOf isoTime specTrade) (Num 0.5)"
    by (simp add: roi_specTrade)
  have thr: "(0.5::real) = (case Some (minROIOnly 0.5) of None \<Rightarrow> 0.30
                       | Some x \<Rightarrow> (case minROI x of Some m \<Rightarrow> m | None \<Rightarrow> 0.30))"
    by (simp add: minROIOnly_def)
  show ?thesis
    using hard_fail_short_circuit [OF thr lt] lt by blast
qed

text \<open>
  C2, as stated: with no tolerance field set the score is 100. It is not: the collateral
  criterion is scored whatever the tolerances, so the total is never 0, and the default
  threshold 0.30 of the hard fail still applies. Here a call with a collateral of 60000
  and no tolerances scores 20.
\<close>

theorem no_tolerances_score_counterexample:
  "noTolerances (Some emptyTolerances)
   \<and> score (evaluateTrade isoTime (Some emptyTolerances) highCollateralTrade) = Num 20
   \<and> score (evaluateTrade isoTime (Some emptyTolerances) highCollateralTrade) \<noteq> Num 100"
proof -
  have "finalScoreOf (scoreAll isoTime (Some emptyTolerances) highCollateralTrade) = Num 20"
    by (simp add: ledger_noTolerances(2) [OF noTolerances_empty] untolerancedPoints_def
          untolerancedTotal_def collateralEarned_def collateralAtRiskOf_def
          supportVariancePctOf_def highCollateralTrade_def specTrade_def)
  then show ?thesis
    using noTolerances_empty
    by (simp add: evaluateTrade_scored [OF not_hardFail_highCollateral] toFixedReal_numeral)
qed

text \<open>
  C2, amended. With no tolerance field set, a trade is hard-failed exactly when
  \<open>annualROI < 0.30\<close>, and then has score 0 and suggestion \<open>Aggressive\<close>. Otherwise
  \<open>totalPossible\<close> is 10, or 20 when the support variance applies, the score is
  100 times the collateral and support points over \<open>totalPossible\<close>, the suggestion
  is \<open>Conservative\<close> when that score is at least 90, \<open>Neutral\<close> when it is at least
  70 and \<open>Aggressive\<close> below, and the score is 100 exactly when the collateral is below
  20000 and the support variance, where it applies, is at least 10.
\<close>

theorem no_tolerances_score:
  assumes nt: "noTolerances tol"
  shows "hardFailOf getTime tol t = js_lt (annualROIOf getTime t) (Num 0.30)
       \<and> (hardFailOf getTime tol t \<longrightarrow>
            score (evaluateTrade getTime tol t) = Num 0
            \<and> suggestion (evaluateTrade getTime tol t) = Aggressive)
       \<and> (\<not> hardFailOf getTime tol t \<longrightarrow>
            totalPossible (evaluateTrade getTime tol t) = untolerancedTotal t
            \<and> score (evaluateTrade getTime tol t)
                = Num (untolerancedPoints t / untolerancedTotal t * 100)
            \<and> suggestion (evaluateTrade getTime tol t)
                = (if 90 \<le> untolerancedPoints t / untolerancedTotal t * 100 then Conservative
                   else if 70 \<le> untolerancedPoints t / untolerancedTotal t * 100 then Neutral
                   else Aggressive)
            \<and> ((score (evaluateTrade getTime tol t) = Num 100)
                = (collateralAtRiskOf t < 20000
                   \<and> (\<forall>v. supportVariancePctOf t = Some v \<longrightarrow> 10 \<le> v))))"
proof -
  have hf: "hardFailOf getTime tol t = js_lt (annualROIOf getTime t) (Num 0.30)"
    by (rule hardFail_noTolerances [OF nt])
  have failed: "score (evaluateTrade getTime tol t) = Num 0
            \<and> suggestion (evaluateTrade getTime tol t) = Aggressive"
    if "hardFailOf getTime tol t"
    using that by (simp add: evaluateTrade_def Let_def)
  have scored: "totalPossible (evaluateTrade getTime tol t) = untolerancedTotal t
            \<and> score (evaluateTrade getTime tol t)
                = Num (untolerancedPoints t / untolerancedTotal t * 100)
            \<and> suggestion (evaluateTrade getTime tol t)
                = (if 90 \<le> untolerancedPoints t / untolerancedTotal t * 100 then Conservative
                   else if 70 \<le> untolerancedPoints t / untolerancedTotal t * 100 then Neutral
                   else Aggressive)
            \<and> ((score (evaluateTrade getTime tol t) = Num 100)
                = (collateralAtRiskOf t < 20000
                   \<and> (\<forall>v. supportVariancePctOf t = Some v \<longrightarrow> 10 \<le> v)))"
    if nhf: "\<not> hardFailOf getTime tol t"
  proof -
    define x where "x = untolerancedPoints t / untolerancedTotal t * 100"
    have sc: "score (evaluateTrade getTime tol t) = Num x"
      unfolding x_def by (rule score_noTolerances [OF nt nhf])
    have tp: "totalPossible (evaluateTrade getTime tol t) = untolerancedTotal t"
      by (simp add: evaluateTrade_scored [OF nhf] ledger_noTolerances(1) [OF nt])
    have fs: "finalScoreOf (scoreAll getTime tol t) = Num x"
      unfolding x_def by (rule ledger_noTolerances(2) [OF nt])
    have "suggestion (evaluateTrade getTime tol t)
            = suggestionOf (finalScoreOf (scoreAll getTime tol t))"
      by (simp add: evaluateTrade_scored [OF nhf])
    also have "\<dots> = (if 90 \<le> x then Conservative else if 70 \<le> x then Neutral else Aggressive)"
      by (simp add: fs suggestionOf_def)
    finally have sg: "suggestion (evaluateTrade getTime tol t)
            = (if 90 \<le> x then Conservative else if 70 \<le> x then Neutral else Aggressive)" .
    have full: "(score (evaluateTrade getTime tol t) = Num 100)
                = (collateralAtRiskOf t < 20000
                   \<and> (\<forall>v. supportVariancePctOf t = Some v \<longrightarrow> 10 \<le> v))"
      unfolding sc x_def by (simp only: number.inject untoleranced_full_score)
    from tp sc sg full show ?thesis unfolding x_def by blast
  qed
  from hf failed scored show ?thesis by blast
qed

theorem no_tolerances_score_witness:
  "noTolerances (Some emptyTolerances)
   \<and> \<not> hardFailOf isoTime (Some emptyTolerances) highCollateralTrade
   \<and> totalPossible (evaluateTrade isoTime (Some emptyTolerances) highCollateralTrade) = 10
   \<and> score (evaluateTrade isoTime (Some emptyTolerances) highCollateralTrade) = Num 20
   \<and> suggestion (evaluateTrade isoTime (Some emptyTolerances) highCollateralTrade) = Aggressive
   \<and> \<not> hardFailOf isoTime (Some emptyTolerances) specTrade
   \<and> score (evaluateTrade isoTime (Some emptyTolerances) specTrade) = Num 100
   \<and> suggestion (evaluateTrade isoTime (Some emptyTolerances) specTrade) = Conservative"
proof -
  have pts: "untolerancedPoints highCollateralTrade = 2" "untolerancedTotal highCollateralTrade = 10"
    by (simp_all add: untolerancedPoints_def untolerancedTotal_def collateralEarned_def
          collateralAtRiskOf_def supportVariancePctOf_def highCollateralTrade_def specTrade_def)
  have pts': "untolerancedPoints specTrade = 10" "untolerancedTotal specTrade = 10"
    by (simp_all add: untolerancedPoints_def untolerancedTotal_def collateralEarned_def
          collateralAtRiskOf_def supportVariancePctOf_def specTrade_def)
  show ?thesis
    using no_tolerances_score [OF noTolerances_empty, of isoTime highCollateralTrade]
      no_tolerances_score [OF noTolerances_empty, of isoTime specTrade]
      noTolerances_empty not_hardFail_highCollateral not_hardFail_specTrade_empty
    by (simp add: pts pts')
qed

text \<open>
  C3, as stated: for every trade with finite numeric fields. It fails on a trade whose
  numeric fields are finite and whose expiration date is no date: \<open>dte\<close> and
  \<open>annualROI\<close> are \<open>NaN\<close>, the trade is not hard-failed, and under tolerances with
  \<open>minROI\<close> and \<open>maxDTE\<close> the ROI and DTE entries earn \<open>NaN\<close>, as do the score and
  the ledger fields; no comparison with \<open>NaN\<close> holds.
\<close>

theorem ledger_invariants_counterexample:
  "score (evaluateTrade isoTime (Some tightTolerances) badDateTrade) = NaN
   \<and> \<not> js_le (Num 0) (score (evaluateTrade isoTime (Some tightTolerances) badDateTrade))
   \<and> \<not> js_le (score (evaluateTrade isoTime (Some tightTolerances) badDateTrade)) (Num 100)
   \<and> \<not> list_all earnedWithinMax
          (breakdown (evaluateTrade isoTime (Some tightTolerances) badDateTrade))
   \<and> \<not> js_le (pointsFinal (evaluateTrade isoTime (Some tightTolerances) badDateTrade))
            (pointsBeforePenalties (evaluateTrade isoTime (Some tightTolerances) badDateTrade))"
  by (simp add: evaluateTrade_scored [OF not_hardFail_badDateTrade] scoreAll_tight_badDate
        finalScoreOf_def pointsFinalOf_def penaltiesAppliedOf_def earnedWithinMax_def)

text \<open>
  C3, amended. Invariants. For a trade with finite numeric fields and valid dates, and any
  tolerances, every entry of the returned breakdown has \<open>0 \<le> earned \<le> max\<close>, the
  returned score lies in \<open>[0, 100]\<close>, and \<open>pointsFinal \<le> pointsBeforePenalties\<close>.
  The numeric fields of a trade are finite by their type; the comparisons are those of
  JavaScript, false on \<open>NaN\<close>, so each conjunct also says that the value is a number.
\<close>

theorem ledger_invariants:
  assumes "validDates getTime t"
  shows "list_all earnedWithinMax (breakdown (evaluateTrade getTime tol t))
       \<and> js_le (Num 0) (score (evaluateTrade getTime tol t))
       \<and> js_le (score (evaluateTrade getTime tol t)) (Num 100)
       \<and> js_le (pointsFinal (evaluateTrade getTime tol t))
                (pointsBeforePenalties (evaluateTrade getTime tol t))"
proof (cases "hardFailOf getTime tol t")
  case True
  then show ?thesis by (simp add: evaluateTrade_def Let_def earnedWithinMax_def)
next
  case False
  let ?s = "scoreAll getTime tol t"
  have ok: "ledgerOk ?s" by (rule ledgerOk_scoreAll [OF assms False])
  from ok obtain sc p where v: "scoreAcc ?s = Num sc" "0 \<le> sc" "sc \<le> totalAcc ?s"
      "penaltyPool ?s = Num p"
    by (rule ledgerOk_values)
  have T: "0 < totalAcc ?s" using total_scoreAll [of getTime tol t] by simp
  let ?pen = "min 15 (15 * clamp01 p)"
  let ?pf = "max 0 (sc - ?pen)"
  have pen: "0 \<le> ?pen" by (rule penalties_range)
  have parts: "list_all earnedWithinMax (parts ?s)"
    using ok by (simp add: ledgerOk_def)
  have fs: "finalScoreOf ?s = Num (?pf / totalAcc ?s * 100)"
    by (rule finalScore_value [OF v(4) v(1) T])
  have rng: "0 \<le> ?pf / totalAcc ?s * 100" "?pf / totalAcc ?s * 100 \<le> 100"
    by (rule finalScore_range [OF v(2) v(3) T pen])+
  have sc: "js_le (Num 0) (toFixed 1 (finalScoreOf ?s))"
      "js_le (toFixed 1 (finalScoreOf ?s)) (Num 100)"
    using toFixedReal_range [OF rng, of 1] by (simp_all add: fs)
  have pf: "pointsFinalOf ?s = Num ?pf"
    by (rule pointsFinal_value [OF v(4) v(1)])
  have "?pf \<le> sc" using pen v(2) by simp
  then have "toFixedReal 2 ?pf \<le> toFixedReal 2 sc"
    by (intro toFixedReal_mono) simp_all
  then have led: "js_le (toFixed 2 (pointsFinalOf ?s)) (toFixed 2 (scoreAcc ?s))"
    by (simp add: pf v(1))
  show ?thesis
    using False parts sc led by (simp add: evaluateTrade_def Let_def)
qed

theorem ledger_invariants_witness:
  "validDates isoTime specTrade
   \<and> list_all earnedWithinMax
         (breakdown (evaluateTrade isoTime (Some tightTolerances) specTrade))
   \<and> js_le (Num 0) (score (evaluateTrade isoTime (Some tightTolerances) specTrade))
   \<and> js_le (score (evaluateTrade isoTime (Some tightTolerances) specTrade)) (Num 100)
   \<and> js_le (pointsFinal (evaluateTrade isoTime (Some tightTolerances) specTrade))
            (pointsBeforePenalties (evaluateTrade isoTime (Some tightTolerances) specTrade))"
  using ledger_invariants [OF validDates_specTrade, of "Some tightTolerances"]
    validDates_specTrade by blast

text \<open>
  C4, as stated: for every trade that is not hard-failed. It fails on the trade whose
  expiration date is no date, under a \<open>maxDTE\<close> of 5 alone: the trade is not
  hard-failed, \<open>dte\<close> is \<open>NaN\<close> and does not exceed 5, yet the DTE criterion takes
  its exceeding branch and adds \<open>NaN\<close> to the pool, so the pool, \<open>penaltiesApplied\<close>
  and \<open>pointsFinal\<close> are \<open>NaN\<close> and not the values of the formulas.
\<close>

theorem penalty_ledger_counterexample:
  "\<not> hardFailOf isoTime (Some (maxDTEOnly 5)) badDateTrade
   \<and> \<not> js_gt (dteOf isoTime badDateTrade) (Num 5)
   \<and> penaltyPool (scoreAll isoTime (Some (maxDTEOnly 5)) badDateTrade) = NaN
   \<and> penaltiesAppliedOf (scoreAll isoTime (Some (maxDTEOnly 5)) badDateTrade) = NaN
   \<and> pointsFinalOf (scoreAll isoTime (Some (maxDTEOnly 5)) badDateTrade) = NaN
   \<and> penaltiesApplied (evaluateTrade isoTime (Some (maxDTEOnly 5)) badDateTrade) = NaN
   \<and> pointsFinal (evaluateTrade isoTime (Some (maxDTEOnly 5)) badDateTrade) = NaN"
  using not_hardFail_badDateTrade [of "Some (maxDTEOnly 5)"]
  by (simp add: evaluateTrade_scored [OF not_hardFail_badDateTrade] scoreAll_dteOnly_badDate
        dte_badDateTrade pointsFinalOf_def penaltiesAppliedOf_def)

text \<open>
  C4, amended. Penalty ledger. For a trade that is not hard-failed and whose \<open>dte\<close> is the
  number \<open>d\<close> (both dates valid): the penalty pool is the sum of the severities
  \<open>max(0, 1 - 1/(value/tolerance))\<close> of those of delta, DTE and beta that exceed a set,
  positive tolerance; \<open>penaltiesApplied = min(15, 15 * clamp01(penaltyPool))\<close>; the
  points before penalties are the sum of the earned points of the breakdown; and
  \<open>pointsFinal = max(0, pointsBeforePenalties - penaltiesApplied)\<close>. The three returned
  ledger fields are these values rounded to two decimals.
\<close>

theorem penalty_ledger:
  assumes d: "dteOf getTime t = Num d" and nhf: "\<not> hardFailOf getTime tol t"
  shows "penaltyPool (scoreAll getTime tol t) = Num (specPenaltyPool tol d t)
       \<and> penaltiesAppliedOf (scoreAll getTime tol t)
           = Num (min 15 (15 * clamp01 (specPenaltyPool tol d t)))
       \<and> breakdown (evaluateTrade getTime tol t) = parts (scoreAll getTime tol t)
       \<and> scoreAcc (scoreAll getTime tol t) = sumEarned (breakdown (evaluateTrade getTime tol t))
       \<and> (\<exists>sc. scoreAcc (scoreAll getTime tol t) = Num sc
              \<and> pointsFinalOf (scoreAll getTime tol t)
                  = Num (max 0 (sc - min 15 (15 * clamp01 (specPenaltyPool tol d t)))))
       \<and> pointsBeforePenalties (evaluateTrade getTime tol t)
           = toFixed 2 (scoreAcc (scoreAll getTime tol t))
       \<and> penaltiesApplied (evaluateTrade getTime tol t)
           = toFixed 2 (penaltiesAppliedOf (scoreAll getTime tol t))
       \<and> pointsFinal (evaluateTrade getTime tol t)
           = toFixed 2 (pointsFinalOf (scoreAll getTime tol t))"
proof -
  let ?s = "scoreAll getTime tol t"
  have pool: "penaltyPool ?s = Num (specPenaltyPool tol d t)"
    by (rule pool_scoreAll [OF d])
  have ok: "ledgerOk ?s"
    by (rule ledgerOk_scoreAll [OF dte_number_valid [OF d] nhf])
  from ok obtain sc p where sc: "scoreAcc ?s = Num sc"
    by (rule ledgerOk_values)
  have pen: "penaltiesAppliedOf ?s = Num (min 15 (15 * clamp01 (specPenaltyPool tol d t)))"
    by (rule penaltiesApplied_value [OF pool])
  have pf: "pointsFinalOf ?s = Num (max 0 (sc - min 15 (15 * clamp01 (specPenaltyPool tol d t))))"
    by (rule pointsFinal_value [OF pool sc])
  have bd: "breakdown (evaluateTrade getTime tol t) = parts ?s"
    by (simp add: evaluateTrade_scored [OF nhf])
  have sm: "scoreAcc ?s = sumEarned (breakdown (evaluateTrade getTime tol t))"
    by (simp only: bd sum_scoreAll)
  have out: "pointsBeforePenalties (evaluateTrade getTime tol t) = toFixed 2 (scoreAcc ?s)"
      "penaltiesApplied (evaluateTrade getTime tol t) = toFixed 2 (penaltiesAppliedOf ?s)"
      "pointsFinal (evaluateTrade getTime tol t) = toFixed 2 (pointsFinalOf ?s)"
    by (simp_all add: evaluateTrade_scored [OF nhf])
  from pool pen bd sm sc pf out show ?thesis by blast
qed

theorem penalty_ledger_witness:
  "dteOf isoTime specTrade = Num 10
   \<and> \<not> hardFailOf isoTime (Some tightTolerances) specTrade
   \<and> penaltyPool (scoreAll isoTime (Some tightTolerances) specTrade) = Num 1.5
   \<and> penaltiesAppliedOf (scoreAll isoTime (Some tightTolerances) specTrade) = Num 15"
proof -
  have P: "specPenaltyPool (Some tightTolerances) 10 specTrade = 1.5"
    by (simp add: specPenaltyPool_def specSeverity_def tolField_def tightTolerances_def
          specTrade_def)
  show ?thesis
    using penalty_ledger [OF dte_specTrade not_hardFail_specTrade] dte_specTrade
      not_hardFail_specTrade
    by (simp add: P clamp01_def)
qed

text \<open>
  C5. Partial credit. For every value and positive tolerance, \<open>heavyPenalty\<close> is 1 when
  the value is within the tolerance and \<open>clamp01((tolerance/value)^2)\<close> otherwise. In
  a trade that is not hard-failed, under a positive \<open>maxDelta\<close>, the delta entry of the
  breakdown has max 25 and earns 25 times that factor: 6.25 for delta 0.6 under
  \<open>maxDelta = 0.3\<close>.
\<close>

theorem heavy_penalty_partial_credit:
  assumes nhf: "\<not> hardFailOf getTime tol t"
    and m: "tolField maxDelta tol = Some m" "0 < m"
  shows "(\<forall>v l. 0 < l \<longrightarrow> heavyPenalty (Num v) (Num l) = Num (specHeavyPenalty v l))
       \<and> map (\<lambda>p. (max_pts p, earned p))
            (partsWithKey ''delta'' (breakdown (evaluateTrade getTime tol t)))
           = [(25, Num (25 * specHeavyPenalty (delta t) m))]
       \<and> (delta t = 0.6 \<and> m = 0.3 \<longrightarrow>
            map earned (partsWithKey ''delta'' (breakdown (evaluateTrade getTime tol t)))
              = [Num 6.25])"
proof -
  let ?s1 = "scoreROI (annualROIOf getTime t) tol scoring0"
  have hp: "\<forall>v l. 0 < l \<longrightarrow> heavyPenalty (Num v) (Num l) = Num (specHeavyPenalty v l)"
    by (simp add: heavyPenalty_spec)
  have fin: "penaltyPool ?s1 \<noteq> NaN" by (simp add: pool_scoreROI scoring0_def)
  from scoreDelta_set [OF m fin, of t] obtain n where
    sd: "scoreDelta t tol ?s1 = addCriterion ''delta'' ''Delta'' 25
          (25 * specHeavyPenalty (delta t) m) n (specSeverity (delta t) (Some m)) ?s1" by blast
  have "partsWithKey ''delta'' (parts (scoreAll getTime tol t))
          = [\<lparr>key = ''delta'', label = ''Delta'', max_pts = 25,
              earned = Num (25 * specHeavyPenalty (delta t) m), noteOf = n\<rparr>]"
    by (simp add: delta_parts_scoreAll sd partsWithKey_addCriterion key_scoreROI)
       (simp add: scoring0_def partsWithKey_def)
  then have bd: "partsWithKey ''delta'' (breakdown (evaluateTrade getTime tol t))
          = [\<lparr>key = ''delta'', label = ''Delta'', max_pts = 25,
              earned = Num (25 * specHeavyPenalty (delta t) m), noteOf = n\<rparr>]"
    by (simp add: evaluateTrade_scored [OF nhf])
  have e1: "map (\<lambda>p. (max_pts p, earned p))
            (partsWithKey ''delta'' (breakdown (evaluateTrade getTime tol t)))
           = [(25, Num (25 * specHeavyPenalty (delta t) m))]"
    by (simp add: bd)
  have e2: "map earned (partsWithKey ''delta'' (breakdown (evaluateTrade getTime tol t)))
              = [Num 6.25]" if a: "delta t = 0.6" and b: "m = 0.3"
  proof -
    have "specHeavyPenalty (delta t) m = specHeavyPenalty 0.6 0.3" by (simp only: a b)
    also have "\<dots> = 0.25" by (simp add: specHeavyPenalty_def clamp01_def power2_eq_square)
    finally have "25 * specHeavyPenalty (delta t) m = 6.25" by simp
    then show ?thesis by (simp add: bd)
  qed
  from hp e1 e2 show ?thesis by blast
qed

theorem heavy_penalty_partial_credit_witness:
  "\<not> hardFailOf isoTime (Some tightTolerances) specTrade
   \<and> heavyPenalty (Num 0.6) (Num 0.3) = Num 0.25
   \<and> map earned (partsWithKey ''delta''
        (breakdown (evaluateTrade isoTime (Some tightTolerances) specTrade))) = [Num 6.25]"
proof -
  have m: "tolField maxDelta (Some tightTolerances) = Some 0.3" "(0::real) < 0.3"
    by (simp_all add: tolField_def tightTolerances_def)
  have dl: "delta specTrade = 0.6" by (simp add: specTrade_def)
  have sp: "specHeavyPenalty 0.6 0.3 = 0.25"
    by (simp add: specHeavyPenalty_def clamp01_def power2_eq_square)
  from heavy_penalty_partial_credit [OF not_hardFail_specTrade m]
  have "heavyPenalty (Num 0.6) (Num 0.3) = Num (specHeavyPenalty 0.6 0.3)"
    and "map earned (partsWithKey ''delta''
        (breakdown (evaluateTrade isoTime (Some tightTolerances) specTrade))) = [Num 6.25]"
    using dl by simp_all
  then show ?thesis using not_hardFail_specTrade by (simp only: sp) simp
qed

text \<open>
  C6. Empty input. The handler answers 400 with \<open>{error: "No trades provided"}\<close>
  exactly when \<open>trades\<close> is absent, is not an array, or is the empty array; on a
  non-empty array it answers 200 with a non-empty list of results.
\<close>

theorem empty_input_iff:
  "(handler getTime body = emptyInput)
     = (bodyTrades body = Absent \<or> bodyTrades body = NotAnArray \<or> bodyTrades body = TradeArray [])
   \<and> (\<forall>ts. bodyTrades body = TradeArray ts \<and> ts \<noteq> [] \<longrightarrow>
        (\<exists>rs. handler getTime body = \<lparr>status = 200, json = Results rs\<rparr> \<and> rs \<noteq> []))"
  by (auto simp: handler_def emptyInput_def split: tradesInput.splits)

theorem empty_input_iff_witness:
  "handler isoTime \<lparr>bodyTolerances = None, bodyTrades = Absent\<rparr> = emptyInput
   \<and> handler isoTime \<lparr>bodyTolerances = None, bodyTrades = TradeArray []\<rparr> = emptyInput
   \<and> (\<exists>rs. handler isoTime \<lparr>bodyTolerances = None, bodyTrades = TradeArray [specTrade]\<rparr>
               = \<lparr>status = 200, json = Results rs\<rparr> \<and> rs \<noteq> [])"
  using empty_input_iff [of isoTime "\<lparr>bodyTolerances = None, bodyTrades = Absent\<rparr>"]
    empty_input_iff [of isoTime "\<lparr>bodyTolerances = None, bodyTrades = TradeArray []\<rparr>"]
    empty_input_iff [of isoTime "\<lparr>bodyTolerances = None, bodyTrades = TradeArray [specTrade]\<rparr>"]
  by simp

text \<open>
  C7. One result per trade. On a non-empty array the results have the length of the
  input, and the i-th result is the evaluation of the i-th trade under the request's
  tolerances: a function of the tolerances and of that trade alone, which carries the
  trade itself.
\<close>

theorem results_one_to_one:
  assumes "bodyTrades body = TradeArray ts" and "ts \<noteq> []"
  shows "\<exists>rs. json (handler getTime body) = Results rs
            \<and> length rs = length ts
            \<and> (\<forall>i < length ts. rs ! i = evaluateTrade getTime (bodyTolerances body) (ts ! i)
                                \<and> input (rs ! i) = ts ! i)"
proof -
  have inp: "input (evaluateTrade getTime tol t) = t" for tol t
    by (simp add: evaluateTrade_def Let_def)
  show ?thesis using assms by (simp add: handler_def inp)
qed

theorem results_one_to_one_witness:
  "\<exists>rs. json (handler isoTime \<lparr>bodyTolerances = Some tightTolerances,
                                bodyTrades = TradeArray [specTrade, pastTrade]\<rparr>) = Results rs
        \<and> length rs = 2
        \<and> rs ! 0 = evaluateTrade isoTime (Some tightTolerances) specTrade
        \<and> rs ! 1 = evaluateTrade isoTime (Some tightTolerances) pastTrade"
  using results_one_to_one [of "\<lparr>bodyTolerances = Some tightTolerances,
                                 bodyTrades = TradeArray [specTrade, pastTrade]\<rparr>"
                              "[specTrade, pastTrade]" isoTime]
  by auto

text \<open>
  C8. Days to expiration. When both dates are valid, \<open>dte\<close> is the maximum of 1 and the
  ceiling of the difference in days, so it is at least 1 also when the expiration is not
  after the trade date, and \<open>365 / dte\<close> in \<open>annualROI\<close> has a non-zero divisor.
\<close>

theorem dte_at_least_one:
  assumes "getTime (tradeDate t) = Num a" and "getTime (expirationDate t) = Num b"
  shows "dteOf getTime t = Num (max 1 (of_int \<lceil>(b - a) / (1000 * 60 * 60 * 24)\<rceil>))
       \<and> js_ge (dteOf getTime t) (Num 1)
       \<and> dteOf getTime t \<noteq> Num 0
       \<and> annualROIOf getTime t =
           Num ((if strike t > 0 then bid t / strike t else 0)
                * (365 / max 1 (of_int \<lceil>(b - a) / (1000 * 60 * 60 * 24)\<rceil>)))"
  using assms by (simp add: dteOf_def annualROIOf_def)

theorem dte_at_least_one_witness:
  "dteOf isoTime pastTrade = Num 1 \<and> annualROIOf isoTime pastTrade = Num 3.65"
  using dte_at_least_one [of isoTime pastTrade 1704931200000 1704067200000] 
  by (simp add: pastTrade_def specTrade_def isoTime_20240101 isoTime_20240111)




text \<open>
  C10. The total is at least 10. For a trade that is not hard-failed,
  \<open>totalPossible \<ge> 10\<close>, since the collateral criterion is always scored; so the final
  score is \<open>pointsFinal / totalPossible * 100\<close> and never the fallback 100 of an empty
  total. With no tolerance field set and no support variance, \<open>totalPossible = 10\<close>
  and the score is 100, 50 or 20 by the collateral tier.
\<close>

theorem total_possible_at_least_ten:
  assumes nhf: "\<not> hardFailOf getTime tol t"
  shows "10 \<le> totalPossible (evaluateTrade getTime tol t)
       \<and> finalScoreOf (scoreAll getTime tol t)
           = js_mul (js_div (pointsFinalOf (scoreAll getTime tol t))
                       (Num (totalPossible (evaluateTrade getTime tol t)))) (Num 100)
       \<and> (noTolerances tol \<and> supportVariancePctOf t = None \<longrightarrow>
            totalPossible (evaluateTrade getTime tol t) = 10
            \<and> score (evaluateTrade getTime tol t)
                = Num (if collateralAtRiskOf t < 20000 then 100
                       else if collateralAtRiskOf t \<le> 50000 then 50 else 20))"
proof -
  have tp: "totalPossible (evaluateTrade getTime tol t) = totalAcc (scoreAll getTime tol t)"
    by (simp add: evaluateTrade_scored [OF nhf])
  have ten: "10 \<le> totalAcc (scoreAll getTime tol t)" by (rule total_scoreAll)
  then have fs: "finalScoreOf (scoreAll getTime tol t)
           = js_mul (js_div (pointsFinalOf (scoreAll getTime tol t))
                       (Num (totalAcc (scoreAll getTime tol t)))) (Num 100)"
    by (simp add: finalScoreOf_def)
  have tiers: "totalPossible (evaluateTrade getTime tol t) = 10
            \<and> score (evaluateTrade getTime tol t)
                = Num (if collateralAtRiskOf t < 20000 then 100
                       else if collateralAtRiskOf t \<le> 50000 then 50 else 20)"
    if nt: "noTolerances tol" and ns: "supportVariancePctOf t = None"
  proof -
    have v: "untolerancedPoints t / untolerancedTotal t * 100
            = (if collateralAtRiskOf t < 20000 then 100
               else if collateralAtRiskOf t \<le> 50000 then 50 else 20)"
      by (simp add: untolerancedPoints_def untolerancedTotal_def ns collateralEarned_def)
    have "untolerancedTotal t = 10" by (simp add: untolerancedTotal_def ns)
    then have "totalPossible (evaluateTrade getTime tol t) = 10"
      by (simp add: tp ledger_noTolerances(1) [OF nt])
    moreover have "score (evaluateTrade getTime tol t)
                = Num (if collateralAtRiskOf t < 20000 then 100
                       else if collateralAtRiskOf t \<le> 50000 then 50 else 20)"
      by (simp only: score_noTolerances [OF nt nhf] v)
    ultimately show ?thesis by blast
  qed
  from tp ten fs tiers show ?thesis by simp
qed

theorem total_possible_at_least_ten_witness:
  "\<not> hardFailOf isoTime (Some emptyTolerances) highCollateralTrade
   \<and> noTolerances (Some emptyTolerances)
   \<and> supportVariancePctOf highCollateralTrade = None
   \<and> totalPossible (evaluateTrade isoTime (Some emptyTolerances) highCollateralTrade) = 10
   \<and> score (evaluateTrade isoTime (Some emptyTolerances) highCollateralTrade) = Num 20"
proof -
  have ns: "supportVariancePctOf highCollateralTrade = None"
    by (simp add: supportVariancePctOf_def highCollateralTrade_def specTrade_def)
  have c: "collateralAtRiskOf highCollateralTrade = 60000"
    by (simp add: collateralAtRiskOf_def highCollateralTrade_def specTrade_def)
  show ?thesis
    using total_possible_at_least_ten [OF not_hardFail_highCollateral]
      not_hardFail_highCollateral noTolerances_empty ns
    by (simp add: c)
qed

end
